theory Spec2Isabelle
  imports Main "HOL-Library.AList"
begin

section \<open>JSON values and JavaScript objects\<close>

text \<open>
  The broker (\<^verbatim>\<open>prototype/src/signaling/server.js\<close>) handles whatever
  \<^verbatim>\<open>JSON.parse\<close> returns. A parsed value is one of the six JSON kinds; an object is
  its list of properties. Numbers are integers here: peer ids are the only numbers the
  router looks at, and a fractional number equals no peer id.
\<close>

datatype json =
    JNull
  | JBool bool
  | JNum int
  | JStr string
  | JArr "json list"
  | JObj "(string \<times> json) list"

text \<open>
  \<^verbatim>\<open>v.k\<close> on a parsed value: \<^verbatim>\<open>undefined\<close> (here \<open>None\<close>) unless \<open>v\<close> is an object
  with that property. Reading a property of \<^verbatim>\<open>null\<close> throws; the caller checks for it.
\<close>

fun getProp :: "json \<Rightarrow> string \<Rightarrow> json option" where
  "getProp (JObj fs) k = map_of fs k"
| "getProp JNull k = None"
| "getProp (JBool b) k = None"
| "getProp (JNum n) k = None"
| "getProp (JStr s) k = None"
| "getProp (JArr xs) k = None"

text \<open>JavaScript truthiness of a value that may be \<^verbatim>\<open>undefined\<close>.\<close>

fun truthy :: "json option \<Rightarrow> bool" where
  "truthy None = False"
| "truthy (Some JNull) = False"
| "truthy (Some (JBool b)) = b"
| "truthy (Some (JNum n)) = (n \<noteq> 0)"
| "truthy (Some (JStr s)) = (s \<noteq> [])"
| "truthy (Some (JArr xs)) = True"
| "truthy (Some (JObj fs)) = True"

text \<open>\<^verbatim>\<open>x || []\<close> and \<^verbatim>\<open>x || null\<close>.\<close>

definition or_empty :: "json option \<Rightarrow> json" where
  "or_empty x = (if truthy x then the x else JArr [])"

definition or_null :: "json option \<Rightarrow> json" where
  "or_null x = (if truthy x then the x else JNull)"

text \<open>
  A property of an object literal. \<^verbatim>\<open>JSON.stringify\<close> leaves out a property whose
  value is \<^verbatim>\<open>undefined\<close>, so such a property contributes nothing to the message.
\<close>

fun field :: "string \<Rightarrow> json option \<Rightarrow> (string \<times> json) list" where
  "field k None = []"
| "field k (Some v) = [(k, v)]"

text \<open>
  \<^verbatim>\<open>{ ...msg, fromId }\<close>: every property of \<open>msg\<close> is kept, and \<^verbatim>\<open>fromId\<close> is set,
  replacing a \<^verbatim>\<open>fromId\<close> the sender may have put there itself.
\<close>

fun withFromId :: "json \<Rightarrow> int \<Rightarrow> json" where
  "withFromId (JObj fs) fromId = JObj (AList.update ''fromId'' (JNum fromId) fs)"
| "withFromId JNull fromId = JObj [(''fromId'', JNum fromId)]"
| "withFromId (JBool b) fromId = JObj [(''fromId'', JNum fromId)]"
| "withFromId (JNum n) fromId = JObj [(''fromId'', JNum fromId)]"
| "withFromId (JStr s) fromId = JObj [(''fromId'', JNum fromId)]"
| "withFromId (JArr xs) fromId = JObj [(''fromId'', JNum fromId)]"

text \<open>
  Whether a value converts to a string, as a template literal and \<^verbatim>\<open>Array.join\<close>
  require. Conversion calls the value's \<^verbatim>\<open>toString\<close>; an object parsed from JSON
  that has a property of that name hides the inherited method behind a value that is not
  a function, and the conversion throws a \<^verbatim>\<open>TypeError\<close>. Numbers, strings,
  booleans and \<^verbatim>\<open>null\<close> always convert; an array converts when its elements do.
\<close>

fun printable :: "json \<Rightarrow> bool" where
  "printable (JObj fs) = (map_of fs ''toString'' = None)"
| "printable (JArr xs) = (\<forall>x \<in> set xs. printable x)"
| "printable JNull = True"
| "printable (JBool b) = True"
| "printable (JNum n) = True"
| "printable (JStr s) = True"

text \<open>A value that may be \<^verbatim>\<open>undefined\<close>, which prints as such.\<close>

fun printableOpt :: "json option \<Rightarrow> bool" where
  "printableOpt None = True"
| "printableOpt (Some v) = printable v"

fun isArray :: "json \<Rightarrow> bool" where
  "isArray (JArr xs) = True"
| "isArray JNull = False"
| "isArray (JBool b) = False"
| "isArray (JNum n) = False"
| "isArray (JStr s) = False"
| "isArray (JObj fs) = False"


section \<open>The signaling broker\<close>

subsection \<open>State\<close>

datatype ready_state = CONNECTING | OPEN | CLOSING | CLOSED

text \<open>
  A WebSocket: \<open>sock\<close> names the connection, \<open>readyState\<close> is its state when the broker
  looks at it.
\<close>

record ws =
  sock :: nat
  readyState :: ready_state

text \<open>
  \<^verbatim>\<open>peers\<close> is a \<^verbatim>\<open>Map\<close> from peer id to \<^verbatim>\<open>{ ws, role, panelIds, windowList? }\<close>. A
  JavaScript \<^verbatim>\<open>Map\<close> iterates in insertion order, \<^verbatim>\<open>set\<close> on a present key replaces the
  value in place and \<^verbatim>\<open>delete\<close> removes the entry: an association list with
  \<^const>\<open>AList.update\<close>, \<^const>\<open>AList.delete\<close> and \<^const>\<open>map_of\<close>.
  \<open>role\<close> is \<^verbatim>\<open>null\<close> until a register message sets it to \<^verbatim>\<open>msg.role\<close>, which may be
  \<^verbatim>\<open>undefined\<close> (\<open>None\<close>).
\<close>

record peer =
  ws :: ws
  role :: "json option"
  panelIds :: json
  windowList :: "json option"

record broker =
  peers :: "(int \<times> peer) list"
  nextPeerId :: int

definition initial :: broker where
  "initial = \<lparr>peers = [], nextPeerId = 1\<rparr>"

datatype error = TypeError

subsection \<open>Sending\<close>

text \<open>
  A handler's output is the list of its calls \<^verbatim>\<open>send(ws, msg)\<close>, in order: the socket
  as it is at the call, and the message object before \<^verbatim>\<open>JSON.stringify\<close>.
  \<^verbatim>\<open>send\<close> itself writes to the socket only when it is open; \<open>wire\<close> is what the calls
  of a handler put on the network.
\<close>

type_synonym call = "ws \<times> json"

definition send :: "ws \<Rightarrow> json \<Rightarrow> (nat \<times> json) list" where
  "send w msg = (if readyState w = OPEN then [(sock w, msg)] else [])"

definition wire :: "call list \<Rightarrow> (nat \<times> json) list" where
  "wire cs = concat (map (\<lambda>(w, msg). send w msg) cs)"

text \<open>\<^verbatim>\<open>broadcast(msg, excludeId = null)\<close>; \<open>None\<close> is \<^verbatim>\<open>null\<close>.\<close>

definition broadcast :: "broker \<Rightarrow> json \<Rightarrow> int option \<Rightarrow> call list" where
  "broadcast st msg excludeId =
     map (\<lambda>(id, p). (ws p, msg)) (filter (\<lambda>(id, p). Some id \<noteq> excludeId) (peers st))"

subsection \<open>Connection, close\<close>

definition peerEntry :: "int \<times> peer \<Rightarrow> json" where
  "peerEntry e =
     JObj ([(''peerId'', JNum (fst e))] @ field ''role'' (role (snd e))
           @ [(''panelIds'', panelIds (snd e))])"

definition welcomePeers :: "broker \<Rightarrow> int \<Rightarrow> json list" where
  "welcomePeers st peerId = map peerEntry (filter (\<lambda>(id, p). id \<noteq> peerId) (peers st))"

definition cachedWindowList :: "broker \<Rightarrow> json" where
  "cachedWindowList st =
     (case find (\<lambda>p. role p = Some (JStr ''capture'') \<and> truthy (windowList p))
                (map snd (peers st)) of
        None \<Rightarrow> JNull
      | Some capturePeer \<Rightarrow> or_null (windowList capturePeer))"

text \<open>
  \<^verbatim>\<open>wss.on('connection')\<close>: the id is taken from the counter, the entry is stored with
  \<^verbatim>\<open>role: null, panelIds: []\<close>, and the welcome is sent to the new socket.
\<close>

definition welcomeMsg :: "broker \<Rightarrow> int \<Rightarrow> json" where
  "welcomeMsg st peerId =
     JObj [(''type'', JStr ''welcome''),
           (''peerId'', JNum peerId),
           (''peers'', JArr (welcomePeers st peerId)),
           (''windowList'', cachedWindowList st)]"

definition onConnection :: "broker \<Rightarrow> ws \<Rightarrow> broker \<times> call list" where
  "onConnection st w =
     (let peerId = nextPeerId st;
          st' = st\<lparr>peers := AList.update peerId
                     \<lparr>ws = w, role = Some JNull, panelIds = JArr [], windowList = None\<rparr>
                     (peers st),
                   nextPeerId := peerId + 1\<rparr>
      in (st', [(w, welcomeMsg st' peerId)]))"

text \<open>
  \<^verbatim>\<open>ws.on('close')\<close>: log the peer's role, delete the entry, then broadcast to
  whoever is left.
\<close>

definition peerDisconnectedMsg :: "int \<Rightarrow> json" where
  "peerDisconnectedMsg peerId =
     JObj [(''type'', JStr ''peer-disconnected''), (''peerId'', JNum peerId)]"

definition onClose :: "broker \<Rightarrow> int \<Rightarrow> error + broker \<times> call list" where
  "onClose st peerId =
     (if \<not> printableOpt (case map_of (peers st) peerId of None \<Rightarrow> None | Some p \<Rightarrow> role p)
      then Inl TypeError
      else (let st' = st\<lparr>peers := AList.delete peerId (peers st)\<rparr>
            in Inr (st', broadcast st' (peerDisconnectedMsg peerId) None)))"

subsection \<open>Message handling\<close>

text \<open>
  \<^verbatim>\<open>peers.get(msg.targetId)\<close>: keys are numbers and \<^verbatim>\<open>Map\<close> compares without
  conversion, so only a numeric \<^verbatim>\<open>targetId\<close> can find a peer.
\<close>

definition getTarget :: "broker \<Rightarrow> json \<Rightarrow> peer option" where
  "getTarget st msg =
     (case getProp msg ''targetId'' of
        Some (JNum n) \<Rightarrow> map_of (peers st) n
      | _ \<Rightarrow> None)"

definition capturePeers :: "broker \<Rightarrow> (int \<times> peer) list" where
  "capturePeers st = filter (\<lambda>(id, p). role p = Some (JStr ''capture'')) (peers st)"

definition viewerPeers :: "broker \<Rightarrow> (int \<times> peer) list" where
  "viewerPeers st = filter (\<lambda>(id, p). role p = Some (JStr ''viewer'')) (peers st)"

text \<open>
  The \<^verbatim>\<open>register\<close> case. The entry is mutated first. The log line then prints
  \<^verbatim>\<open>msg.role\<close> and calls \<^verbatim>\<open>peer.panelIds.join\<close>, which throws when
  \<^verbatim>\<open>msg.panelIds\<close> is a truthy value that is not an array, or when an element of the
  array does not convert to a string. The broadcast passes no \<^verbatim>\<open>excludeId\<close>.
\<close>

definition peerRegisteredMsg :: "int \<Rightarrow> json option \<Rightarrow> json \<Rightarrow> json" where
  "peerRegisteredMsg fromId r pids =
     JObj ([(''type'', JStr ''peer-registered''), (''peerId'', JNum fromId)]
           @ field ''role'' r @ [(''panelIds'', pids)])"

definition handleRegister :: "broker \<Rightarrow> int \<Rightarrow> peer \<Rightarrow> json \<Rightarrow> error + broker \<times> call list" where
  "handleRegister st fromId p msg =
     (let p' = p\<lparr>role := getProp msg ''role'', panelIds := or_empty (getProp msg ''panelIds'')\<rparr>;
          st' = st\<lparr>peers := AList.update fromId p' (peers st)\<rparr>
      in if \<not> printableOpt (getProp msg ''role'') \<or> \<not> isArray (panelIds p')
            \<or> \<not> printable (panelIds p')
         then Inl TypeError
         else Inr (st', broadcast st'
                          (peerRegisteredMsg fromId (getProp msg ''role'') (panelIds p')) None))"

text \<open>
  The \<^verbatim>\<open>offer\<close>, \<^verbatim>\<open>answer\<close>, \<^verbatim>\<open>ice-candidate\<close> case. When the target is not
  found a warning is logged, which prints \<^verbatim>\<open>msg.targetId\<close>.
\<close>

definition handleRelay :: "broker \<Rightarrow> int \<Rightarrow> json \<Rightarrow> error + call list" where
  "handleRelay st fromId msg =
     (case getTarget st msg of
        Some target \<Rightarrow> Inr [(ws target, withFromId msg fromId)]
      | None \<Rightarrow> if printableOpt (getProp msg ''targetId'') then Inr [] else Inl TypeError)"

text \<open>The \<^verbatim>\<open>panel-request\<close> case.\<close>

definition panelRequestMsg :: "int \<Rightarrow> json \<Rightarrow> json" where
  "panelRequestMsg fromId msg =
     JObj ([(''type'', JStr ''panel-request''), (''fromId'', JNum fromId)]
           @ field ''panelId'' (getProp msg ''panelId''))"

definition handlePanelRequest :: "broker \<Rightarrow> int \<Rightarrow> json \<Rightarrow> call list" where
  "handlePanelRequest st fromId msg =
     map (\<lambda>(id, p). (ws p, panelRequestMsg fromId msg)) (capturePeers st)"

text \<open>The \<^verbatim>\<open>window-list\<close> case: cache on the sender's entry, forward to viewers.\<close>

definition handleWindowList :: "broker \<Rightarrow> int \<Rightarrow> peer \<Rightarrow> json \<Rightarrow> broker \<times> call list" where
  "handleWindowList st fromId p msg =
     (let st' = st\<lparr>peers := AList.update fromId (p\<lparr>windowList := getProp msg ''windows''\<rparr>)
                              (peers st)\<rparr>
      in (st', map (\<lambda>(id, q). (ws q, JObj ([(''type'', JStr ''window-list''),
                                             (''fromId'', JNum fromId)]
                                            @ field ''windows'' (getProp msg ''windows''))))
                   (viewerPeers st')))"

text \<open>The \<^verbatim>\<open>request-window-list\<close> case.\<close>

definition handleRequestWindowList :: "broker \<Rightarrow> int \<Rightarrow> call list" where
  "handleRequestWindowList st fromId =
     map (\<lambda>(id, p). (ws p, JObj [(''type'', JStr ''request-window-list''),
                                 (''fromId'', JNum fromId)]))
         (capturePeers st)"

text \<open>The \<^verbatim>\<open>capture-window\<close>, \<^verbatim>\<open>release-panel\<close> case; nothing is logged.\<close>

definition handleCommand :: "broker \<Rightarrow> int \<Rightarrow> json \<Rightarrow> call list" where
  "handleCommand st fromId msg =
     (case getTarget st msg of
        Some target \<Rightarrow>
          if role target = Some (JStr ''capture'') then [(ws target, withFromId msg fromId)]
          else []
      | None \<Rightarrow> [])"

text \<open>
  \<^verbatim>\<open>handleMessage(fromId, msg)\<close>. The guard on the sender comes first; then
  \<^verbatim>\<open>msg.type\<close> is read, which throws on \<^verbatim>\<open>null\<close>; the \<^verbatim>\<open>switch\<close> compares with
  \<^verbatim>\<open>===\<close>, so only a string \<^verbatim>\<open>type\<close> selects a case; the default case logs
  \<^verbatim>\<open>msg.type\<close>.
\<close>

definition handleMessage :: "broker \<Rightarrow> int \<Rightarrow> json \<Rightarrow> error + broker \<times> call list" where
  "handleMessage st fromId msg =
     (case map_of (peers st) fromId of
        None \<Rightarrow> Inr (st, [])
      | Some p \<Rightarrow>
          if msg = JNull then Inl TypeError
          else (case getProp msg ''type'' of
                  Some (JStr t) \<Rightarrow>
                    if t = ''register'' then handleRegister st fromId p msg
                    else if t = ''offer'' \<or> t = ''answer'' \<or> t = ''ice-candidate''
                      then (case handleRelay st fromId msg of
                              Inl err \<Rightarrow> Inl err
                            | Inr out \<Rightarrow> Inr (st, out))
                    else if t = ''panel-request''
                      then Inr (st, handlePanelRequest st fromId msg)
                    else if t = ''window-list''
                      then Inr (handleWindowList st fromId p msg)
                    else if t = ''request-window-list''
                      then Inr (st, handleRequestWindowList st fromId)
                    else if t = ''capture-window'' \<or> t = ''release-panel''
                      then Inr (st, handleCommand st fromId msg)
                    else Inr (st, [])
                | _ \<Rightarrow> if printableOpt (getProp msg ''type'') then Inr (st, [])
                       else Inl TypeError))"

subsection \<open>Events\<close>

text \<open>
  What the event loop delivers to the broker: a new connection, a frame from a connected
  peer (\<open>None\<close> when \<^verbatim>\<open>JSON.parse\<close> throws, which is caught and logged), the close of
  a connection, a socket error (logged only), and a change of a socket's
  \<^verbatim>\<open>readyState\<close>, which the network makes and the broker only reads.
\<close>

datatype event =
    Connection ws
  | Message int "json option"
  | Close int
  | SocketError int
  | ReadyState int ready_state

definition setReadyState :: "broker \<Rightarrow> int \<Rightarrow> ready_state \<Rightarrow> broker" where
  "setReadyState st peerId rs =
     (case map_of (peers st) peerId of
        None \<Rightarrow> st
      | Some p \<Rightarrow> st\<lparr>peers := AList.update peerId (p\<lparr>ws := (ws p)\<lparr>readyState := rs\<rparr>\<rparr>)
                                (peers st)\<rparr>)"

fun step :: "broker \<Rightarrow> event \<Rightarrow> error + broker \<times> call list" where
  "step st (Connection w) = Inr (onConnection st w)"
| "step st (Message peerId None) = Inr (st, [])"
| "step st (Message peerId (Some msg)) = handleMessage st peerId msg"
| "step st (Close peerId) = onClose st peerId"
| "step st (SocketError peerId) = Inr (st, [])"
| "step st (ReadyState peerId rs) = Inr (setReadyState st peerId rs, [])"

text \<open>
  The states the broker goes through on a sequence of events. An uncaught exception in
  a handler ends the process, and the sequence of states with it.
\<close>

fun run :: "broker \<Rightarrow> event list \<Rightarrow> broker list" where
  "run st [] = []"
| "run st (e # es) =
     (case step st e of
        Inl err \<Rightarrow> []
      | Inr (st', out) \<Rightarrow> st' # run st' es)"


section \<open>The viewer client\<close>

text \<open>
  \<^verbatim>\<open>prototype/src/streaming/StreamClient.js\<close>. The signals it receives come from the
  broker, so they are typed as the broker and the wire protocol make them: peer ids are
  the broker's numbers, panel ids are strings. The application callbacks
  (\<^verbatim>\<open>onStream\<close>, \<^verbatim>\<open>onInputChannel\<close>, \<^verbatim>\<open>onWindowList\<close>,
  \<^verbatim>\<open>onCapturePeerConnected\<close>) are \<^verbatim>\<open>null\<close> unless the application sets them and do
  not touch the client's maps; they are left out.
\<close>

subsection \<open>Strings\<close>

definition digitChar :: "nat \<Rightarrow> char" where
  "digitChar d = ''0123456789'' ! d"

fun digits :: "nat \<Rightarrow> string" where
  "digits n = (if n < 10 then [digitChar n] else digits (n div 10) @ [digitChar (n mod 10)])"

declare digits.simps [simp del]

text \<open>A number inside a template literal.\<close>

definition toString :: "int \<Rightarrow> string" where
  "toString i = (if i < 0 then CHR ''-'' # digits (nat (- i)) else digits (nat i))"

definition startsWith :: "string \<Rightarrow> string \<Rightarrow> bool" where
  "startsWith s p = (take (length p) s = p)"

text \<open>The composite key \<^verbatim>\<open>`${remotePeerId}:${panelId}`\<close>.\<close>

definition sessionKey :: "int \<Rightarrow> string \<Rightarrow> string" where
  "sessionKey remotePeerId panelId = toString remotePeerId @ '':'' @ panelId"

subsection \<open>State\<close>

text \<open>
  An \<^verbatim>\<open>RTCPeerConnection\<close> as far as the client's code reads and writes it, with the
  two variables its callbacks close over. Connection objects live in a store \<open>pcs\<close>,
  addressed by the number \<^verbatim>\<open>new RTCPeerConnection\<close> returned, so that a connection
  closed and dropped from the map can still be looked at.
\<close>

record pc =
  remotePeerId :: int
  panelId :: string
  closed :: bool
  remoteDescription :: "json option"
  localDescription :: "json option"

text \<open>
  The session map \<^verbatim>\<open>peerConnections\<close>, from composite key to connection, with the
  store of connection objects. The viewer client and the two capture clients
  (\<^verbatim>\<open>ElectronCaptureClient\<close>, \<^verbatim>\<open>CaptureClient\<close>) each hold one.
\<close>

record sessions =
  peerConnections :: "(string \<times> nat) list"
  pcs :: "nat \<Rightarrow> pc"

text \<open>
  The viewer client: \<open>wsOpen\<close> is \<^verbatim>\<open>this.ws?.readyState === WebSocket.OPEN\<close>,
  \<open>dataChannels\<close> maps a panel id to its input channel, \<open>nextPc\<close> is the number the
  next \<^verbatim>\<open>new RTCPeerConnection\<close> gets.
\<close>

record client = sessions +
  wsOpen :: bool
  dataChannels :: "(string \<times> nat) list"
  capturePeerIds :: "int list"
  nextPc :: nat

text \<open>The client as its constructor leaves it; unused cells of the store are blank.\<close>

definition blankPc :: pc where
  "blankPc = \<lparr>remotePeerId = 0, panelId = [], closed = False,
              remoteDescription = None, localDescription = None\<rparr>"

definition newClient :: client where
  "newClient = \<lparr>peerConnections = [], pcs = (\<lambda>h. blankPc), wsOpen = False,
                dataChannels = [], capturePeerIds = [], nextPc = 0\<rparr>"

datatype signal =
    PeerRegistered int "json option" "string list"
  | Offer int string json
  | IceCandidate int string "json option"
  | WindowList json
  | PeerDisconnected int
  | Unhandled

definition clientSend :: "client \<Rightarrow> json \<Rightarrow> json list" where
  "clientSend c msg = (if wsOpen c then [msg] else [])"

definition closePc :: "'a sessions_scheme \<Rightarrow> nat \<Rightarrow> 'a sessions_scheme" where
  "closePc c h = c\<lparr>pcs := (pcs c)(h := (pcs c h)\<lparr>closed := True\<rparr>)\<rparr>"

subsection \<open>Sessions\<close>

text \<open>
  \<^verbatim>\<open>_getOrCreatePC\<close>: the connection stored under the key when there is one,
  otherwise a new connection, stored under the key.
\<close>

definition getOrCreatePC :: "client \<Rightarrow> int \<Rightarrow> string \<Rightarrow> nat \<times> client" where
  "getOrCreatePC c rid pid =
     (let key = sessionKey rid pid in
      case map_of (peerConnections c) key of
        Some h \<Rightarrow> (h, c)
      | None \<Rightarrow>
          (let h = nextPc c in
           (h, c\<lparr>pcs := (pcs c)(h := \<lparr>remotePeerId = rid, panelId = pid, closed = False,
                                       remoteDescription = None, localDescription = None\<rparr>),
                 nextPc := Suc h,
                 peerConnections := AList.update key h (peerConnections c)\<rparr>)))"

text \<open>
  \<^verbatim>\<open>pc.ondatachannel\<close> on the connection \<open>h\<close>, for a channel \<open>ch\<close> with the given
  label.
\<close>

definition ondatachannel :: "client \<Rightarrow> nat \<Rightarrow> string \<Rightarrow> nat \<Rightarrow> client" where
  "ondatachannel c h label ch =
     (let channelPanelId = (if startsWith label ''input:'' then drop 6 label
                            else panelId (pcs c h))
      in c\<lparr>dataChannels := AList.update channelPanelId ch (dataChannels c)\<rparr>)"

text \<open>
  The loop of the \<^verbatim>\<open>peer-disconnected\<close> case, over the entries of
  \<^verbatim>\<open>peerConnections\<close> in iteration order. Deleting the entry being visited does not
  disturb the iteration of a \<^verbatim>\<open>Map\<close>. The loop is the same, line for line, in the
  viewer client and in both capture clients.
\<close>

fun closeSessions ::
  "string \<Rightarrow> (string \<times> nat) list \<Rightarrow> 'a sessions_scheme \<Rightarrow> 'a sessions_scheme" where
  "closeSessions pre [] c = c"
| "closeSessions pre ((key, h) # rest) c =
     closeSessions pre rest
       (if startsWith key pre
        then (closePc c h)\<lparr>peerConnections := AList.delete key (peerConnections c)\<rparr>
        else c)"

text \<open>
  The \<^verbatim>\<open>peer-disconnected\<close> case of a capture client's \<^verbatim>\<open>_handleSignal\<close>: the
  loop and nothing else.
\<close>

definition capturePeerDisconnected :: "'a sessions_scheme \<Rightarrow> int \<Rightarrow> 'a sessions_scheme" where
  "capturePeerDisconnected c pid = closeSessions (toString pid @ '':'') (peerConnections c) c"

definition requestStreams :: "client \<Rightarrow> int \<Rightarrow> string list \<Rightarrow> json list" where
  "requestStreams c capturePeerId pids =
     concat (map (\<lambda>pid. clientSend c (JObj [(''type'', JStr ''panel-request''),
                                             (''panelId'', JStr pid),
                                             (''targetId'', JNum capturePeerId)])) pids)"

text \<open>
  \<^verbatim>\<open>_handleSignal\<close>. In the \<^verbatim>\<open>offer\<close> case the three awaited calls on the connection
  are the browser's; \<open>answer\<close> is their outcome: \<open>None\<close> when one of them rejects (the
  handler then ends there), otherwise the local description they leave on the
  connection.
\<close>

fun handleSignal :: "client \<Rightarrow> signal \<Rightarrow> json option \<Rightarrow> client \<times> json list" where
  "handleSignal c (PeerRegistered pid r pids) answer =
     (if r = Some (JStr ''capture'')
      then (c\<lparr>capturePeerIds := (if pid \<in> set (capturePeerIds c) then capturePeerIds c
                                 else capturePeerIds c @ [pid])\<rparr>,
            requestStreams c pid pids)
      else (c, []))"
| "handleSignal c (Offer fromId pid sdp) answer =
     (let (h, c1) = getOrCreatePC c fromId pid in
      case answer of
        None \<Rightarrow> (c1, [])
      | Some a \<Rightarrow>
          (c1\<lparr>pcs := (pcs c1)(h := (pcs c1 h)\<lparr>remoteDescription := Some sdp,
                                              localDescription := Some a\<rparr>)\<rparr>,
           clientSend c1 (JObj [(''type'', JStr ''answer''), (''targetId'', JNum fromId),
                                (''sdp'', a), (''panelId'', JStr pid)])))"
| "handleSignal c (IceCandidate fromId pid candidate) answer = (c, [])"
| "handleSignal c (WindowList windows) answer = (c, [])"
| "handleSignal c (PeerDisconnected pid) answer =
     ((closeSessions (toString pid @ '':'') (peerConnections c) c)
        \<lparr>capturePeerIds := filter (\<lambda>i. i \<noteq> pid) (capturePeerIds c)\<rparr>, [])"
| "handleSignal c Unhandled answer = (c, [])"

text \<open>\<^verbatim>\<open>releasePanel(targetCapturePeerId, panelId)\<close>.\<close>

definition releasePanel :: "client \<Rightarrow> int \<Rightarrow> string \<Rightarrow> client \<times> json list" where
  "releasePanel c targetCapturePeerId pid =
     (let out = clientSend c (JObj [(''type'', JStr ''release-panel''),
                                    (''targetId'', JNum targetCapturePeerId),
                                    (''panelId'', JStr pid)]);
          key = sessionKey targetCapturePeerId pid;
          c1 = (case map_of (peerConnections c) key of
                  Some h \<Rightarrow> (closePc c h)\<lparr>peerConnections := AList.delete key (peerConnections c)\<rparr>
                | None \<Rightarrow> c)
      in (c1\<lparr>dataChannels := AList.delete pid (dataChannels c1)\<rparr>, out))"


section \<open>Invariant and example runs\<close>

text \<open>
  Peer ids come from a counter that only grows, so every id in the registry is below
  it; and a role gets into the registry only past the log line that prints it. Both
  hold initially and every event keeps them.
\<close>

definition peerIds :: "broker \<Rightarrow> int set" where
  "peerIds st = fst ` set (peers st)"

definition idsBelow :: "broker \<Rightarrow> bool" where
  "idsBelow st = list_all (\<lambda>(id, p). id < nextPeerId st) (peers st)"

definition rolesPrintable :: "broker \<Rightarrow> bool" where
  "rolesPrintable st = list_all (\<lambda>(id, p). printableOpt (role p)) (peers st)"

text \<open>
  A small run used to instantiate the theorems: a capture peer (id 1), two viewers
  (ids 2 and 3) and a second capture peer (id 4) connect and register; the socket of
  the second capture peer is then closing.
\<close>

definition wsA :: ws where
  "wsA = \<lparr>sock = 10, readyState = OPEN\<rparr>"

definition wsB :: ws where
  "wsB = \<lparr>sock = 11, readyState = OPEN\<rparr>"

definition wsC :: ws where
  "wsC = \<lparr>sock = 12, readyState = OPEN\<rparr>"

definition wsD :: ws where
  "wsD = \<lparr>sock = 13, readyState = OPEN\<rparr>"

definition registerCapture :: json where
  "registerCapture = JObj [(''type'', JStr ''register''), (''role'', JStr ''capture''),
                           (''panelIds'', JArr [JStr ''panel-main''])]"

definition registerViewer :: json where
  "registerViewer = JObj [(''type'', JStr ''register''), (''role'', JStr ''viewer'')]"

definition demoEvents :: "event list" where
  "demoEvents = [Connection wsA, Message 1 (Some registerCapture),
                 Connection wsB, Message 2 (Some registerViewer),
                 Connection wsC, Message 3 (Some registerViewer),
                 Connection wsD, Message 4 (Some registerCapture),
                 ReadyState 4 CLOSING]"

definition demo :: broker where
  "demo = last (run initial demoEvents)"


definition reregisterAsViewer :: json where
  "reregisterAsViewer = JObj [(''type'', JStr ''register''), (''role'', JStr ''viewer''),
                              (''panelIds'', JArr [JStr ''a''])]"

definition releaseMsg :: json where
  "releaseMsg = JObj [(''type'', JStr ''release-panel''), (''targetId'', JNum 2),
                      (''panelId'', JStr ''panel-main'')]"

definition offerMsg :: json where
  "offerMsg = JObj [(''type'', JStr ''offer''), (''targetId'', JNum 2),
                    (''panelId'', JStr ''panel-main'')]"

definition captureWindowMsg :: json where
  "captureWindowMsg = JObj [(''type'', JStr ''capture-window''), (''targetId'', JNum 1),
                            (''sourceId'', JStr ''screen:0''), (''panelId'', JStr ''panel-main'')]"

definition panelRequest :: json where
  "panelRequest = JObj [(''type'', JStr ''panel-request''), (''panelId'', JStr ''panel-main'')]"

text \<open>
  A viewer with an open signaling socket, after a first offer from peer 1 for
  \<^verbatim>\<open>panel-main\<close>, and after a second offer for the same pair.
\<close>

definition viewer0 :: client where
  "viewer0 = newClient\<lparr>wsOpen := True\<rparr>"

definition viewer1 :: client where
  "viewer1 = fst (handleSignal viewer0 (Offer 1 ''panel-main'' (JStr ''sdp-1''))
                               (Some (JStr ''answer-1'')))"

definition viewer2 :: client where
  "viewer2 = fst (handleSignal viewer1 (Offer 1 ''panel-main'' (JStr ''sdp-2''))
                               (Some (JStr ''answer-2'')))"

text \<open>
  A viewer holding sessions for the same panel with two capture peers (1 and 4), whose
  input channels (100, then 101) both arrive labelled \<^verbatim>\<open>input:panel-main\<close>.
\<close>

definition viewer3 :: client where
  "viewer3 = fst (handleSignal viewer1 (Offer 4 ''panel-main'' (JStr ''sdp-3''))
                               (Some (JStr ''answer-3'')))"

definition viewer4 :: client where
  "viewer4 = ondatachannel (ondatachannel viewer3 0 ''input:panel-main'' 100)
                           1 ''input:panel-main'' 101"

text \<open>
  Two frames a connected peer can send: an offer whose \<^verbatim>\<open>targetId\<close> is the object
  \<^verbatim>\<open>{"toString": 1}\<close>, and a registration whose \<^verbatim>\<open>panelIds\<close> is \<^verbatim>\<open>null\<close>.
\<close>

definition unprintableOffer :: json where
  "unprintableOffer = JObj [(''type'', JStr ''offer''),
                            (''targetId'', JObj [(''toString'', JNum 1)])]"

definition registerNullPanels :: json where
  "registerNullPanels = JObj [(''type'', JStr ''register''), (''role'', JStr ''capture''),
                              (''panelIds'', JNull)]"

section \<open>The broker: routing\<close>

lemma wire_Nil: "wire [] = []"
  by (simp add: wire_def)

lemma wire_single: "wire [(w, m)] = (if readyState w = OPEN then [(sock w, m)] else [])"
  by (simp add: wire_def send_def)

lemma wire_map:
  "wire (map (\<lambda>(id, p). (ws p, m)) xs) =
     map (\<lambda>(id, p). (sock (ws p), m)) (filter (\<lambda>(id, p). readyState (ws p) = OPEN) xs)"
  by (induction xs) (auto simp: wire_def send_def)

lemma broadcast_all:
  "broadcast st m None = map (\<lambda>(id, q). (ws q, m)) (peers st)"
proof -
  have "filter (\<lambda>(id, q). Some id \<noteq> None) xs = xs" for xs :: "(int \<times> peer) list"
    by (induction xs) auto
  then show ?thesis by (simp add: broadcast_def)
qed

lemma getProp_withFromId_same:
  "getProp (withFromId msg f) ''fromId'' = Some (JNum f)"
  by (cases msg) (simp_all add: update_conv')

lemma getProp_withFromId_other:
  "k \<noteq> ''fromId'' \<Longrightarrow> getProp (withFromId msg f) k = getProp msg k"
  by (cases msg) (simp_all add: update_conv')

lemma typed_not_null: "getProp msg k = Some v \<Longrightarrow> msg \<noteq> JNull"
  by (cases msg) simp_all

lemma handleMessage_absent:
  "map_of (peers st) fromId = None \<Longrightarrow> handleMessage st fromId msg = Inr (st, [])"
  by (simp add: handleMessage_def)

lemma handleMessage_typed:
  assumes "map_of (peers st) fromId = Some p" "getProp msg ''type'' = Some (JStr t)"
  shows "handleMessage st fromId msg =
    (if t = ''register'' then handleRegister st fromId p msg
     else if t = ''offer'' \<or> t = ''answer'' \<or> t = ''ice-candidate''
       then (case handleRelay st fromId msg of Inl err \<Rightarrow> Inl err | Inr out \<Rightarrow> Inr (st, out))
     else if t = ''panel-request'' then Inr (st, handlePanelRequest st fromId msg)
     else if t = ''window-list'' then Inr (handleWindowList st fromId p msg)
     else if t = ''request-window-list'' then Inr (st, handleRequestWindowList st fromId)
     else if t = ''capture-window'' \<or> t = ''release-panel''
       then Inr (st, handleCommand st fromId msg)
     else Inr (st, []))"
  unfolding handleMessage_def using assms typed_not_null[OF assms(2)] by simp

lemma handleMessage_untyped:
  assumes "map_of (peers st) fromId = Some p" "msg \<noteq> JNull"
    and "\<forall>t. getProp msg ''type'' \<noteq> Some (JStr t)"
  shows "handleMessage st fromId msg =
           (if printableOpt (getProp msg ''type'') then Inr (st, []) else Inl TypeError)"
  using assms by (simp add: handleMessage_def split: option.splits json.splits)

lemma relay_dispatch:
  assumes "map_of (peers st) fromId = Some p" "getProp msg ''type'' = Some (JStr t)"
    "t = ''offer'' \<or> t = ''answer'' \<or> t = ''ice-candidate''"
  shows "handleMessage st fromId msg =
           (case handleRelay st fromId msg of Inl err \<Rightarrow> Inl err | Inr out \<Rightarrow> Inr (st, out))"
  using assms(3) unfolding handleMessage_typed[OF assms(1,2)] by (elim disjE) simp_all

lemma command_dispatch:
  assumes "map_of (peers st) fromId = Some p" "getProp msg ''type'' = Some (JStr t)"
    "t = ''capture-window'' \<or> t = ''release-panel''"
  shows "handleMessage st fromId msg = Inr (st, handleCommand st fromId msg)"
  using assms(3) unfolding handleMessage_typed[OF assms(1,2)] by (elim disjE) simp_all

lemma panel_dispatch:
  assumes "map_of (peers st) fromId = Some p" "getProp msg ''type'' = Some (JStr ''panel-request'')"
  shows "handleMessage st fromId msg = Inr (st, handlePanelRequest st fromId msg)"
  unfolding handleMessage_typed[OF assms(1,2)] by simp

lemma register_dispatch:
  assumes "map_of (peers st) fromId = Some p" "getProp msg ''type'' = Some (JStr ''register'')"
  shows "handleMessage st fromId msg = handleRegister st fromId p msg"
  unfolding handleMessage_typed[OF assms(1,2)] by simp


lemma handleRegister_ok:
  assumes "printableOpt (getProp msg ''role'')"
    and "isArray (or_empty (getProp msg ''panelIds''))"
    and "printable (or_empty (getProp msg ''panelIds''))"
  shows "handleRegister st fromId p msg =
     Inr (st\<lparr>peers := AList.update fromId
                (p\<lparr>role := getProp msg ''role'', panelIds := or_empty (getProp msg ''panelIds'')\<rparr>)
                (peers st)\<rparr>,
          map (\<lambda>(id, q). (ws q, peerRegisteredMsg fromId (getProp msg ''role'')
                                    (or_empty (getProp msg ''panelIds''))))
              (AList.update fromId
                (p\<lparr>role := getProp msg ''role'', panelIds := or_empty (getProp msg ''panelIds'')\<rparr>)
                (peers st)))"
  using assms by (simp add: handleRegister_def Let_def broadcast_all)

text \<open>What a handled message can do to the registry.\<close>

lemma handleMessage_effect:
  assumes "handleMessage st fromId msg = Inr (st', out)"
  shows "st' = st
       \<or> (\<exists>p. map_of (peers st) fromId = Some p \<and>
              getProp msg ''type'' = Some (JStr ''register'') \<and>
              printableOpt (getProp msg ''role'') \<and>
              st' = st\<lparr>peers := AList.update fromId
                        (p\<lparr>role := getProp msg ''role'',
                           panelIds := or_empty (getProp msg ''panelIds'')\<rparr>)
                        (peers st)\<rparr>)
       \<or> (\<exists>p. map_of (peers st) fromId = Some p \<and>
              getProp msg ''type'' = Some (JStr ''window-list'') \<and>
              st' = st\<lparr>peers := AList.update fromId (p\<lparr>windowList := getProp msg ''windows''\<rparr>)
                        (peers st)\<rparr>)"
proof (cases "map_of (peers st) fromId")
  case None
  then show ?thesis using assms by (simp add: handleMessage_absent)
next
  case (Some p)
  show ?thesis
  proof (cases "\<exists>t. getProp msg ''type'' = Some (JStr t)")
    case True
    then obtain t where t: "getProp msg ''type'' = Some (JStr t)" by blast
    show ?thesis
      using assms Some t unfolding handleMessage_typed[OF Some t]
      by (simp add: handleRegister_def handleWindowList_def Let_def split: if_splits sum.splits)
  next
    case False
    show ?thesis
    proof (cases "msg = JNull")
      case True
      then show ?thesis using assms Some by (simp add: handleMessage_def)
    next
      case False
      with \<open>\<not> (\<exists>t. getProp msg ''type'' = Some (JStr t))\<close> Some assms show ?thesis
        by (simp add: handleMessage_untyped split: if_splits)
    qed
  qed
qed

section \<open>The broker: registry\<close>

lemma idsBelow_iff: "idsBelow st \<longleftrightarrow> (\<forall>id \<in> peerIds st. id < nextPeerId st)"
  by (auto simp: idsBelow_def list_all_iff peerIds_def)

lemma rolesPrintable_iff:
  "rolesPrintable st \<longleftrightarrow> (\<forall>e \<in> set (peers st). printableOpt (role (snd e)))"
  by (auto simp: rolesPrintable_def list_all_iff)

lemma keys_update_present:
  assumes "map_of al k = Some v"
  shows "fst ` set (AList.update k v' al) = fst ` set al"
proof -
  have "k \<in> fst ` set al" using assms by (metis map_of_eq_None_iff option.distinct(1))
  then show ?thesis unfolding dom_update by blast
qed

lemma set_update_subset: "set (AList.update k v al) \<subseteq> insert (k, v) (set al)"
  by (induction al) auto

lemma delete_filter: "AList.delete k al = filter (\<lambda>(k', v). k' \<noteq> k) al"
  by (induction al) auto

lemma handleMessage_keys:
  assumes "handleMessage st fromId msg = Inr (st', out)"
  shows "peerIds st' = peerIds st \<and> nextPeerId st' = nextPeerId st"
  using handleMessage_effect[OF assms]
  by (elim disjE exE conjE) (simp_all add: peerIds_def keys_update_present)

lemma onConnection_keys:
  "peerIds (fst (onConnection st w)) = insert (nextPeerId st) (peerIds st)"
  "nextPeerId (fst (onConnection st w)) = nextPeerId st + 1"
  by (simp_all add: peerIds_def onConnection_def Let_def dom_update)

lemma onClose_effect:
  assumes "onClose st i = Inr (st', out)"
  shows "st' = st\<lparr>peers := AList.delete i (peers st)\<rparr>"
    and "out = map (\<lambda>(id, q). (ws q, peerDisconnectedMsg i))
                   (filter (\<lambda>(id, q). id \<noteq> i) (peers st))"
  using assms by (simp_all add: onClose_def Let_def broadcast_all delete_filter split: if_splits)

lemma onClose_keys:
  assumes "onClose st i = Inr (st', out)"
  shows "peerIds st' \<subseteq> peerIds st" "i \<notin> peerIds st'" "nextPeerId st' = nextPeerId st"
  unfolding onClose_effect(1)[OF assms]
  by (simp_all add: peerIds_def dom_delete_subset delete_notin_dom)

lemma setReadyState_keys:
  "peerIds (setReadyState st i rs) = peerIds st"
  "nextPeerId (setReadyState st i rs) = nextPeerId st"
  by (simp_all add: peerIds_def setReadyState_def keys_update_present split: option.splits)

lemma step_keys:
  assumes "step st e = Inr (st', out)"
  shows "(peerIds st' \<subseteq> peerIds st \<and> nextPeerId st' = nextPeerId st)
       \<or> (peerIds st' = insert (nextPeerId st) (peerIds st) \<and>
          nextPeerId st' = nextPeerId st + 1)"
proof (cases e)
  case (Connection w)
  then have "st' = fst (onConnection st w)" using assms by simp
  then show ?thesis by (simp add: onConnection_keys)
next
  case (Message i d)
  show ?thesis
  proof (cases d)
    case None
    then show ?thesis using assms Message by auto
  next
    case (Some m)
    then have "handleMessage st i m = Inr (st', out)" using assms Message by simp
    from handleMessage_keys[OF this] show ?thesis by simp
  qed
next
  case (Close i)
  then have "onClose st i = Inr (st', out)" using assms by simp
  from onClose_keys[OF this] show ?thesis by simp
next
  case (SocketError i)
  then show ?thesis using assms by auto
next
  case (ReadyState i rs)
  then have "st' = setReadyState st i rs" using assms by simp
  then show ?thesis by (simp add: setReadyState_keys)
qed

lemma step_nextPeerId:
  assumes "step st e = Inr (st', out)"
  shows "nextPeerId st \<le> nextPeerId st'"
  using step_keys[OF assms] by auto

lemma step_absent:
  assumes "step st e = Inr (st', out)" "p \<notin> peerIds st" "p < nextPeerId st"
  shows "p \<notin> peerIds st' \<and> p < nextPeerId st'"
  using step_keys[OF assms(1)] assms(2,3) by auto

text \<open>An id that has left the registry and lies below the counter never comes back.\<close>

lemma run_absent:
  assumes "p \<notin> peerIds st" "p < nextPeerId st"
  shows "\<forall>s \<in> set (run st es). p \<notin> peerIds s"
  using assms
proof (induction es arbitrary: st)
  case Nil
  then show ?case by simp
next
  case (Cons e es)
  show ?case
  proof (cases "step st e")
    case (Inl err)
    then show ?thesis by simp
  next
    case (Inr r)
    obtain st' out where r: "r = (st', out)" by (cases r)
    from step_absent[OF Inr[unfolded r] Cons.prems]
    have a: "p \<notin> peerIds st'" "p < nextPeerId st'" by simp_all
    from Cons.IH[OF a] a(1) show ?thesis using Inr r by simp
  qed
qed

lemma step_idsBelow:
  assumes "step st e = Inr (st', out)" "idsBelow st"
  shows "idsBelow st'"
  using step_keys[OF assms(1)] assms(2) unfolding idsBelow_iff by fastforce

lemma rolesPrintable_update:
  assumes "rolesPrintable st" "printableOpt (role v)"
  shows "rolesPrintable (st\<lparr>peers := AList.update k v (peers st)\<rparr>)"
  using assms set_update_subset[of k v "peers st"] unfolding rolesPrintable_iff by auto

lemma rolesPrintable_lookup:
  assumes "rolesPrintable st" "map_of (peers st) k = Some p"
  shows "printableOpt (role p)"
  using assms map_of_SomeD[OF assms(2)] unfolding rolesPrintable_iff by auto

lemma step_rolesPrintable:
  assumes s: "step st e = Inr (st', out)" and r: "rolesPrintable st"
  shows "rolesPrintable st'"
proof (cases e)
  case (Connection w)
  then have "st' = fst (onConnection st w)" using s by simp
  then show ?thesis
    using rolesPrintable_update[OF r, of "\<lparr>ws = w, role = Some JNull, panelIds = JArr [], windowList = None\<rparr>" "nextPeerId st"]
    by (simp add: onConnection_def Let_def rolesPrintable_def)
next
  case (Message i d)
  show ?thesis
  proof (cases d)
    case None
    then show ?thesis using s r Message by auto
  next
    case (Some m)
    then have h: "handleMessage st i m = Inr (st', out)" using s Message by simp
    from handleMessage_effect[OF h] show ?thesis
    proof (elim disjE exE conjE)
      assume "st' = st"
      then show ?thesis using r by simp
    next
      fix p
      assume "printableOpt (getProp m ''role'')"
        and "st' = st\<lparr>peers := AList.update i
               (p\<lparr>role := getProp m ''role'', panelIds := or_empty (getProp m ''panelIds'')\<rparr>)
               (peers st)\<rparr>"
      then show ?thesis using rolesPrintable_update[OF r] by simp
    next
      fix p
      assume "map_of (peers st) i = Some p"
        and "st' = st\<lparr>peers := AList.update i (p\<lparr>windowList := getProp m ''windows''\<rparr>) (peers st)\<rparr>"
      then show ?thesis using rolesPrintable_update[OF r] rolesPrintable_lookup[OF r] by simp
    qed
  qed
next
  case (Close i)
  then have "onClose st i = Inr (st', out)" using s by simp
  from onClose_effect(1)[OF this] show ?thesis
    using r by (simp add: rolesPrintable_iff delete_filter)
next
  case (SocketError i)
  then show ?thesis using s r by auto
next
  case (ReadyState i rs)
  then have "st' = setReadyState st i rs" using s by simp
  then show ?thesis
    using r rolesPrintable_update[OF r] rolesPrintable_lookup[OF r]
    by (simp add: setReadyState_def split: option.splits)
qed

lemma run_invariant:
  assumes "idsBelow st" "rolesPrintable st"
  shows "\<forall>s \<in> set (run st es). idsBelow s \<and> rolesPrintable s"
  using assms
proof (induction es arbitrary: st)
  case Nil
  then show ?case by simp
next
  case (Cons e es)
  show ?case
  proof (cases "step st e")
    case (Inl err)
    then show ?thesis by simp
  next
    case (Inr r)
    obtain st' out where r: "r = (st', out)" by (cases r)
    have s: "step st e = Inr (st', out)" using Inr r by simp
    have i: "idsBelow st'" "rolesPrintable st'"
      using step_idsBelow[OF s Cons.prems(1)] step_rolesPrintable[OF s Cons.prems(2)] by simp_all
    from Cons.IH[OF i] i show ?thesis using s by simp
  qed
qed

text \<open>Both invariants hold in every state the broker reaches from its initial state.\<close>

lemma reachable_invariant:
  assumes "st \<in> set (initial # run initial evs)"
  shows "idsBelow st" "rolesPrintable st"
proof -
  have i: "idsBelow initial" "rolesPrintable initial"
    by (simp_all add: idsBelow_def rolesPrintable_def initial_def)
  from run_invariant[OF i, of evs] i assms show "idsBelow st" "rolesPrintable st" by auto
qed

lemma capturePeers_keys: "fst ` set (capturePeers st) \<subseteq> peerIds st"
  by (auto simp: capturePeers_def peerIds_def)

lemma onClose_ok:
  assumes "rolesPrintable st"
  shows "onClose st i = Inr (st\<lparr>peers := AList.delete i (peers st)\<rparr>,
                            map (\<lambda>(id, q). (ws q, peerDisconnectedMsg i))
                                (filter (\<lambda>(id, q). id \<noteq> i) (peers st)))"
proof -
  have "printableOpt (case map_of (peers st) i of None \<Rightarrow> None | Some p \<Rightarrow> role p)"
    using rolesPrintable_lookup[OF assms] by (cases "map_of (peers st) i") simp_all
  then show ?thesis by (simp add: onClose_def Let_def broadcast_all delete_filter)
qed

lemma step_keeps_registration:
  assumes s: "step st e = Inr (st', out)"
    and q: "map_of (peers st) p = Some q"
    and b: "p < nextPeerId st"
    and nc: "e \<noteq> Close p"
    and nr: "\<forall>x. e = Message p (Some x) \<longrightarrow> getProp x ''type'' \<noteq> Some (JStr ''register'')"
  shows "\<exists>q'. map_of (peers st') p = Some q' \<and> role q' = role q \<and> panelIds q' = panelIds q"
proof (cases e)
  case (Connection w)
  then have "st' = fst (onConnection st w)" using s by simp
  then show ?thesis using q b by (simp add: onConnection_def Let_def update_conv')
next
  case (Message i d)
  show ?thesis
  proof (cases d)
    case None
    then show ?thesis using s q Message by auto
  next
    case (Some m)
    then have h: "handleMessage st i m = Inr (st', out)" using s Message by simp
    from handleMessage_effect[OF h] show ?thesis
    proof (elim disjE exE conjE)
      assume "st' = st"
      then show ?thesis using q by simp
    next
      fix p0
      assume a: "getProp m ''type'' = Some (JStr ''register'')"
        and st': "st' = st\<lparr>peers := AList.update i
             (p0\<lparr>role := getProp m ''role'', panelIds := or_empty (getProp m ''panelIds'')\<rparr>) (peers st)\<rparr>"
      have "i \<noteq> p" using nr a Message Some by auto
      then show ?thesis using q st' by (simp add: update_conv')
    next
      fix p0
      assume a: "map_of (peers st) i = Some p0"
        and st': "st' = st\<lparr>peers := AList.update i (p0\<lparr>windowList := getProp m ''windows''\<rparr>) (peers st)\<rparr>"
      show ?thesis using q st' a by (cases "i = p") (simp_all add: update_conv')
    qed
  qed
next
  case (Close i)
  then have c: "onClose st i = Inr (st', out)" "i \<noteq> p" using s nc by auto
  from onClose_effect(1)[OF c(1)] c(2) show ?thesis using q by simp
next
  case (SocketError i)
  then show ?thesis using s q by auto
next
  case (ReadyState i rs)
  then have "st' = setReadyState st i rs" using s by simp
  then show ?thesis using q
    by (cases "i = p") (simp_all add: setReadyState_def update_conv' split: option.splits)
qed

lemma run_keeps_registration:
  assumes "map_of (peers st) p = Some q" "p < nextPeerId st"
    and "\<forall>e \<in> set es. e \<noteq> Close p \<and>
            (\<forall>x. e = Message p (Some x) \<longrightarrow> getProp x ''type'' \<noteq> Some (JStr ''register''))"
  shows "\<forall>s \<in> set (run st es).
           \<exists>q'. map_of (peers s) p = Some q' \<and> role q' = role q \<and> panelIds q' = panelIds q"
  using assms
proof (induction es arbitrary: st q)
  case Nil
  then show ?case by simp
next
  case (Cons e es)
  show ?case
  proof (cases "step st e")
    case (Inl err)
    then show ?thesis by simp
  next
    case (Inr r)
    obtain st' out where r: "r = (st', out)" by (cases r)
    have s: "step st e = Inr (st', out)" using Inr r by simp
    from Cons.prems(3) have e: "e \<noteq> Close p"
      "\<forall>x. e = Message p (Some x) \<longrightarrow> getProp x ''type'' \<noteq> Some (JStr ''register'')"
      and es: "\<forall>e \<in> set es. e \<noteq> Close p \<and>
            (\<forall>x. e = Message p (Some x) \<longrightarrow> getProp x ''type'' \<noteq> Some (JStr ''register''))"
      by simp_all
    from step_keeps_registration[OF s Cons.prems(1,2) e]
    obtain q' where q': "map_of (peers st') p = Some q'" "role q' = role q" "panelIds q' = panelIds q"
      by blast
    have b: "p < nextPeerId st'" using step_nextPeerId[OF s] Cons.prems(2) by simp
    from Cons.IH[OF q'(1) b es] q' show ?thesis using s by simp
  qed
qed

section \<open>The broker: the claims\<close>

lemma demo_state:
  "demo = \<lparr>peers = [(1, \<lparr>ws = wsA, role = Some (JStr ''capture''), panelIds = JArr [JStr ''panel-main''], windowList = None\<rparr>),
                     (2, \<lparr>ws = wsB, role = Some (JStr ''viewer''), panelIds = JArr [], windowList = None\<rparr>),
                     (3, \<lparr>ws = wsC, role = Some (JStr ''viewer''), panelIds = JArr [], windowList = None\<rparr>),
                     (4, \<lparr>ws = wsD\<lparr>readyState := CLOSING\<rparr>, role = Some (JStr ''capture''), panelIds = JArr [JStr ''panel-main''], windowList = None\<rparr>)],
           nextPeerId = 5\<rparr>"
  by (simp add: demo_def demoEvents_def initial_def onConnection_def handleMessage_def handleRegister_def
       registerCapture_def registerViewer_def or_empty_def setReadyState_def Let_def)

lemma run_connection_nonempty: "run st (Connection w # es) \<noteq> []"
  by (cases "onConnection st w") simp

lemma demo_reachable: "demo \<in> set (initial # run initial demoEvents)"
proof -
  have "run initial demoEvents \<noteq> []"
    unfolding demoEvents_def by (rule run_connection_nonempty)
  then show ?thesis unfolding demo_def by simp
qed

text \<open>
  Claim C10. A message whose sender is not (or no longer) in the registry is ignored:
  \<^verbatim>\<open>handleMessage\<close> returns at once with the registry as it was, without calling
  \<^verbatim>\<open>send\<close> and without throwing, whatever the message is (a \<^verbatim>\<open>null\<close> message
  included, whose \<^verbatim>\<open>type\<close> is never read).
\<close>

theorem unknown_sender_ignored:
  "map_of (peers st) fromId = None \<Longrightarrow>
     handleMessage st fromId msg = Inr (st, []) \<and>
     step st (Message fromId data) = Inr (st, []) \<and>
     wire [] = []"
  by (cases data) (simp_all add: handleMessage_absent wire_Nil)

theorem unknown_sender_ignored_witness:
  "map_of (peers demo) 7 = None \<and>
   handleMessage demo 7 registerCapture = Inr (demo, []) \<and>
   step demo (Message 7 (Some JNull)) = Inr (demo, [])"
proof -
  have h: "map_of (peers demo) 7 = None" by (simp add: demo_state)
  show ?thesis using h unknown_sender_ignored[OF h, of registerCapture "Some JNull"] by simp
qed

lemma relay_result:
  assumes "map_of (peers st) fromId = Some p"
    and "getProp msg ''type'' = Some (JStr t)"
    and "t = ''offer'' \<or> t = ''answer'' \<or> t = ''ice-candidate''"
  shows "handleMessage st fromId msg =
      (case getTarget st msg of
         Some target \<Rightarrow> Inr (st, [(ws target, withFromId msg fromId)])
       | None \<Rightarrow> if printableOpt (getProp msg ''targetId'') then Inr (st, [])
                 else Inl TypeError)"
  unfolding relay_dispatch[OF assms] by (simp add: handleRelay_def split: option.splits)

lemma getTarget_numeric:
  "getProp msg ''targetId'' = Some (JNum n) \<Longrightarrow> getTarget st msg = map_of (peers st) n"
  by (simp add: getTarget_def)

lemma getTarget_other:
  "\<forall>n. getProp msg ''targetId'' \<noteq> Some (JNum n) \<Longrightarrow> getTarget st msg = None"
  by (simp add: getTarget_def split: option.splits json.splits)

text \<open>
  Routing of negotiation messages, on the registry: a numeric \<^verbatim>\<open>targetId\<close> that is
  no key of the registry gives no send and no error; one that is a key gives exactly one
  send, to that peer's socket, of the message with \<^verbatim>\<open>fromId\<close> set.
\<close>

lemma relay_on_registry:
  assumes "map_of (peers st) fromId = Some p"
    and "getProp msg ''type'' = Some (JStr t)"
    and "t = ''offer'' \<or> t = ''answer'' \<or> t = ''ice-candidate''"
    and "getProp msg ''targetId'' = Some (JNum n)"
  shows "map_of (peers st) n = None \<Longrightarrow> handleMessage st fromId msg = Inr (st, [])"
    and "map_of (peers st) n = Some target \<Longrightarrow>
         handleMessage st fromId msg = Inr (st, [(ws target, withFromId msg fromId)])"
  unfolding relay_result[OF assms(1-3)] getTarget_numeric[OF assms(4)]
  using assms(4) by simp_all

text \<open>
  Claim C2 fails on the code at the log line of the absent-target branch. For an
  \<^verbatim>\<open>offer\<close>, \<^verbatim>\<open>answer\<close> or \<^verbatim>\<open>ice-candidate\<close> message from a registered peer
  whose \<^verbatim>\<open>targetId\<close> is an object with a property named \<^verbatim>\<open>toString\<close>, no peer is
  found (an object is no key of the registry), and the warning that prints
  \<^verbatim>\<open>msg.targetId\<close> throws a \<^verbatim>\<open>TypeError\<close>: the handler does not return.
\<close>

theorem relay_unprintable_target_throws:
  assumes "map_of (peers st) fromId = Some p"
    and "getProp msg ''type'' = Some (JStr t)"
    and "t = ''offer'' \<or> t = ''answer'' \<or> t = ''ice-candidate''"
    and "getProp msg ''targetId'' = Some (JObj fs)"
    and "map_of fs ''toString'' = Some v"
  shows "getTarget st msg = None \<and> handleMessage st fromId msg = Inl TypeError"
proof -
  have g: "getTarget st msg = None" using assms(4) by (simp add: getTarget_def)
  show ?thesis unfolding relay_result[OF assms(1-3)] g using assms(4,5) by simp
qed

theorem relay_unprintable_target_throws_witness:
  "map_of (peers demo) 2 =
     Some \<lparr>ws = wsB, role = Some (JStr ''viewer''), panelIds = JArr [], windowList = None\<rparr> \<and>
   getTarget demo unprintableOffer = None \<and>
   handleMessage demo 2 unprintableOffer = Inl TypeError"
proof -
  have 1: "map_of (peers demo) 2 =
     Some \<lparr>ws = wsB, role = Some (JStr ''viewer''), panelIds = JArr [], windowList = None\<rparr>"
    by (simp add: demo_state)
  have 2: "getProp unprintableOffer ''type'' = Some (JStr ''offer'')"
    by (simp add: unprintableOffer_def)
  have 3: "''offer'' = ''offer'' \<or> ''offer'' = ''answer'' \<or> ''offer'' = ''ice-candidate''" by simp
  have 4: "getProp unprintableOffer ''targetId'' = Some (JObj [(''toString'', JNum 1)])"
    by (simp add: unprintableOffer_def)
  have 5: "map_of [(''toString'', JNum 1)] ''toString'' = Some (JNum 1)" by simp
  from relay_unprintable_target_throws[OF 1 2 3 4 5] 1 show ?thesis by simp
qed

text \<open>
  Claim C4. For a \<^verbatim>\<open>panel-request\<close> from a registered sender the handler calls
  \<^verbatim>\<open>send\<close> once for every peer whose role is \<^verbatim>\<open>capture\<close>, in registry order, and
  for no other peer; the message sent is a \<^verbatim>\<open>panel-request\<close> with the sender's id
  as \<^verbatim>\<open>fromId\<close> and the requested \<^verbatim>\<open>panelId\<close>. With no capture peer nothing is
  sent, and the handler does not throw. On the network, the message reaches the capture
  peers whose socket is open.
\<close>

theorem panel_request_to_capture_peers:
  assumes "map_of (peers st) fromId = Some p"
    and "getProp msg ''type'' = Some (JStr ''panel-request'')"
  shows "\<exists>out. handleMessage st fromId msg = Inr (st, out) \<and>
           out = map (\<lambda>(id, q). (ws q, panelRequestMsg fromId msg))
                     (filter (\<lambda>(id, q). role q = Some (JStr ''capture'')) (peers st)) \<and>
           getProp (panelRequestMsg fromId msg) ''type'' = Some (JStr ''panel-request'') \<and>
           getProp (panelRequestMsg fromId msg) ''fromId'' = Some (JNum fromId) \<and>
           getProp (panelRequestMsg fromId msg) ''panelId'' = getProp msg ''panelId'' \<and>
           (filter (\<lambda>(id, q). role q = Some (JStr ''capture'')) (peers st) = [] \<longrightarrow>
              out = [] \<and> wire out = []) \<and>
           wire out = map (\<lambda>(id, q). (sock (ws q), panelRequestMsg fromId msg))
                          (filter (\<lambda>(id, q). readyState (ws q) = OPEN)
                             (filter (\<lambda>(id, q). role q = Some (JStr ''capture'')) (peers st)))"
proof -
  have m: "getProp (panelRequestMsg fromId msg) ''panelId'' = getProp msg ''panelId''"
    by (cases "getProp msg ''panelId''") (simp_all add: panelRequestMsg_def)
  show ?thesis
    unfolding panel_dispatch[OF assms] handlePanelRequest_def capturePeers_def
    using m by (simp add: wire_map wire_Nil panelRequestMsg_def)
qed

theorem panel_request_to_capture_peers_witness:
  "\<exists>out. handleMessage demo 2 panelRequest = Inr (demo, out) \<and>
      out = [(wsA, panelRequestMsg 2 panelRequest),
             (wsD\<lparr>readyState := CLOSING\<rparr>, panelRequestMsg 2 panelRequest)] \<and>
      wire out = [(10, panelRequestMsg 2 panelRequest)]"
proof -
  have 1: "map_of (peers demo) 2 = Some \<lparr>ws = wsB, role = Some (JStr ''viewer''),
             panelIds = JArr [], windowList = None\<rparr>"
    by (simp add: demo_state)
  have 2: "getProp panelRequest ''type'' = Some (JStr ''panel-request'')"
    by (simp add: panelRequest_def)
  from panel_request_to_capture_peers[OF 1 2] show ?thesis
    by (auto simp: demo_state wsA_def wsD_def)
qed

lemma command_result:
  "handleCommand st fromId msg =
     (case getProp msg ''targetId'' of
        Some (JNum n) \<Rightarrow>
          (case map_of (peers st) n of
             Some target \<Rightarrow> if role target = Some (JStr ''capture'')
                            then [(ws target, withFromId msg fromId)] else []
           | None \<Rightarrow> [])
      | _ \<Rightarrow> [])"
  by (simp add: handleCommand_def getTarget_def split: option.splits json.splits)

text \<open>
  Claim C7, as the code has it. A \<^verbatim>\<open>capture-window\<close> or \<^verbatim>\<open>release-panel\<close> message is
  forwarded, with \<^verbatim>\<open>fromId\<close> set and every other property as received, when
  \<^verbatim>\<open>targetId\<close> names a peer in the registry whose role is \<^verbatim>\<open>capture\<close>; it is
  dropped, without an error, when the target is absent and also when the target is present
  with another role.
\<close>

theorem command_needs_capture_target:
  assumes "map_of (peers st) fromId = Some p"
    and "getProp msg ''type'' = Some (JStr t)"
    and "t = ''capture-window'' \<or> t = ''release-panel''"
  shows "\<exists>out. handleMessage st fromId msg = Inr (st, out) \<and>
           (\<forall>n target. getProp msg ''targetId'' = Some (JNum n) \<and>
                       map_of (peers st) n = Some target \<and>
                       role target = Some (JStr ''capture'') \<longrightarrow>
               out = [(ws target, withFromId msg fromId)] \<and>
               getProp (withFromId msg fromId) ''fromId'' = Some (JNum fromId) \<and>
               (\<forall>k. k \<noteq> ''fromId'' \<longrightarrow> getProp (withFromId msg fromId) k = getProp msg k) \<and>
               wire out = (if readyState (ws target) = OPEN
                           then [(sock (ws target), withFromId msg fromId)] else [])) \<and>
           (\<forall>n target. getProp msg ''targetId'' = Some (JNum n) \<and>
                       map_of (peers st) n = Some target \<and>
                       role target \<noteq> Some (JStr ''capture'') \<longrightarrow> out = []) \<and>
           (\<forall>n. getProp msg ''targetId'' = Some (JNum n) \<and> map_of (peers st) n = None \<longrightarrow>
               out = []) \<and>
           ((\<forall>n. getProp msg ''targetId'' \<noteq> Some (JNum n)) \<longrightarrow> out = [])"
proof -
  define out where "out = handleCommand st fromId msg"
  have d: "handleMessage st fromId msg = Inr (st, out)"
    unfolding out_def using command_dispatch[OF assms] .
  have 1: "\<forall>n target. getProp msg ''targetId'' = Some (JNum n) \<and>
                       map_of (peers st) n = Some target \<and>
                       role target = Some (JStr ''capture'') \<longrightarrow>
               out = [(ws target, withFromId msg fromId)] \<and>
               getProp (withFromId msg fromId) ''fromId'' = Some (JNum fromId) \<and>
               (\<forall>k. k \<noteq> ''fromId'' \<longrightarrow> getProp (withFromId msg fromId) k = getProp msg k) \<and>
               wire out = (if readyState (ws target) = OPEN
                           then [(sock (ws target), withFromId msg fromId)] else [])"
    unfolding out_def command_result
    by (simp add: wire_single getProp_withFromId_same getProp_withFromId_other)
  have 2: "\<forall>n target. getProp msg ''targetId'' = Some (JNum n) \<and>
                       map_of (peers st) n = Some target \<and>
                       role target \<noteq> Some (JStr ''capture'') \<longrightarrow> out = []"
    unfolding out_def command_result by simp
  have 3: "\<forall>n. getProp msg ''targetId'' = Some (JNum n) \<and> map_of (peers st) n = None \<longrightarrow>
               out = []"
    unfolding out_def command_result by simp
  have 4: "(\<forall>n. getProp msg ''targetId'' \<noteq> Some (JNum n)) \<longrightarrow> out = []"
    unfolding out_def command_result by (simp split: option.splits json.splits)
  show ?thesis
    by (rule exI[of _ out]) (intro conjI, rule d, rule 1, rule 2, rule 3, rule 4)
qed

theorem command_needs_capture_target_witness:
  "getProp captureWindowMsg ''targetId'' = Some (JNum 1) \<and>
   map_of (peers demo) 1 =
     Some \<lparr>ws = wsA, role = Some (JStr ''capture''),
           panelIds = JArr [JStr ''panel-main''], windowList = None\<rparr> \<and>
   handleMessage demo 2 captureWindowMsg = Inr (demo, [(wsA, withFromId captureWindowMsg 2)])"
proof -
  have 1: "map_of (peers demo) 2 = Some \<lparr>ws = wsB, role = Some (JStr ''viewer''),
             panelIds = JArr [], windowList = None\<rparr>"
    by (simp add: demo_state)
  have 2: "getProp captureWindowMsg ''type'' = Some (JStr ''capture-window'')"
    by (simp add: captureWindowMsg_def)
  have 3: "''capture-window'' = ''capture-window'' \<or> ''capture-window'' = ''release-panel''" by simp
  have t: "getProp captureWindowMsg ''targetId'' = Some (JNum 1)"
    by (simp add: captureWindowMsg_def)
  have g: "map_of (peers demo) 1 = Some \<lparr>ws = wsA, role = Some (JStr ''capture''),
             panelIds = JArr [JStr ''panel-main''], windowList = None\<rparr>"
    by (simp add: demo_state)
  from command_needs_capture_target[OF 1 2 3]
  obtain out where h: "handleMessage demo 2 captureWindowMsg = Inr (demo, out)"
    and a: "\<forall>n target. getProp captureWindowMsg ''targetId'' = Some (JNum n) \<and>
                       map_of (peers demo) n = Some target \<and>
                       role target = Some (JStr ''capture'') \<longrightarrow>
               out = [(ws target, withFromId captureWindowMsg 2)] \<and>
               getProp (withFromId captureWindowMsg 2) ''fromId'' = Some (JNum 2) \<and>
               (\<forall>k. k \<noteq> ''fromId'' \<longrightarrow> getProp (withFromId captureWindowMsg 2) k = getProp captureWindowMsg k) \<and>
               wire out = (if readyState (ws target) = OPEN
                           then [(sock (ws target), withFromId captureWindowMsg 2)] else [])"
    by blast
  have "out = [(ws \<lparr>ws = wsA, role = Some (JStr ''capture''),
             panelIds = JArr [JStr ''panel-main''], windowList = None\<rparr>, withFromId captureWindowMsg 2)]"
    using a[THEN spec, THEN spec, THEN mp, OF conjI[OF t conjI[OF g]]] by simp
  then have "out = [(wsA, withFromId captureWindowMsg 2)]" by simp
  with h t g show ?thesis by simp
qed

text \<open>
  Claim C7 as stated (presence of the target in the registry is the only condition, as
  for negotiation messages) fails: with a viewer as target, which is in the registry,
  a \<^verbatim>\<open>release-panel\<close> is dropped while an \<^verbatim>\<open>offer\<close> to the same target is forwarded.
\<close>

theorem command_to_viewer_dropped_counterexample:
  "map_of (peers demo) 2 =
     Some \<lparr>ws = wsB, role = Some (JStr ''viewer''), panelIds = JArr [], windowList = None\<rparr> \<and>
   getProp releaseMsg ''targetId'' = Some (JNum 2) \<and>
   handleMessage demo 3 releaseMsg = Inr (demo, []) \<and>
   getProp offerMsg ''targetId'' = Some (JNum 2) \<and>
   handleMessage demo 3 offerMsg = Inr (demo, [(wsB, withFromId offerMsg 3)])"
  by (simp add: demo_state handleMessage_def handleCommand_def handleRelay_def getTarget_def
        releaseMsg_def offerMsg_def)

lemma present_below:
  assumes "st \<in> set (initial # run initial evs)" "map_of (peers st) p = Some q"
  shows "p < nextPeerId st"
proof -
  have "p \<in> peerIds st" using assms(2) unfolding peerIds_def
    by (metis map_of_eq_None_iff option.distinct(1))
  then show ?thesis using reachable_invariant(1)[OF assms(1)] by (simp add: idsBelow_iff)
qed

text \<open>When the \<^verbatim>\<open>register\<close> case gets past its log line.\<close>

lemma or_empty_accepted:
  "isArray (or_empty x) \<and> printable (or_empty x) \<longleftrightarrow>
     \<not> truthy x \<or> (\<exists>xs. x = Some (JArr xs) \<and> printable (JArr xs))"
proof (cases x)
  case None
  then show ?thesis by (simp add: or_empty_def)
next
  case (Some v)
  then show ?thesis by (cases v) (simp_all add: or_empty_def)
qed

lemma or_empty_value:
  "or_empty x = (case x of Some a \<Rightarrow> if truthy (Some a) then a else JArr [] | None \<Rightarrow> JArr [])"
  by (cases x) (simp_all add: or_empty_def)

lemma handleRegister_returns:
  "(\<exists>st' out. handleRegister st fromId p msg = Inr (st', out)) \<longleftrightarrow>
     printableOpt (getProp msg ''role'') \<and> isArray (or_empty (getProp msg ''panelIds'')) \<and>
     printable (or_empty (getProp msg ''panelIds''))"
  by (auto simp: handleRegister_def Let_def)

text \<open>
  Claim C8, as the code has it. Re-registration is last-writer-wins. The broker gets
  past the log line of a \<^verbatim>\<open>register\<close> message exactly when the role prints and
  \<^verbatim>\<open>panelIds\<close> is falsy (left out, \<^verbatim>\<open>null\<close>, \<^verbatim>\<open>0\<close>, \<^verbatim>\<open>false\<close>, the empty
  string) or an array whose elements print. Whenever it does, whatever the registry held
  for the peer before, the peer's entry holds the role of that message, and its
  \<^verbatim>\<open>panelIds\<close> when that is truthy, the empty array otherwise; the entry keeps
  holding them through every later event up to the peer's next \<^verbatim>\<open>register\<close> or its
  disconnect; and handling the same message again leaves the registry as it is.
\<close>

theorem reregistration_last_writer_wins:
  assumes "st \<in> set (initial # run initial evs)"
    and "map_of (peers st) p = Some q"
    and "getProp m ''type'' = Some (JStr ''register'')"
    and "\<forall>e \<in> set es. e \<noteq> Close p \<and>
           (\<forall>x. e = Message p (Some x) \<longrightarrow> getProp x ''type'' \<noteq> Some (JStr ''register''))"
  shows "((\<exists>st' out. handleMessage st p m = Inr (st', out)) \<longleftrightarrow>
            printableOpt (getProp m ''role'') \<and>
            (\<not> truthy (getProp m ''panelIds'') \<or>
             (\<exists>xs. getProp m ''panelIds'' = Some (JArr xs) \<and> printable (JArr xs)))) \<and>
         (\<forall>st' out. handleMessage st p m = Inr (st', out) \<longrightarrow>
            (\<forall>s \<in> set (st' # run st' es).
               \<exists>q'. map_of (peers s) p = Some q' \<and> role q' = getProp m ''role'' \<and>
                    panelIds q' = (case getProp m ''panelIds'' of
                                     Some a \<Rightarrow> if truthy (Some a) then a else JArr []
                                   | None \<Rightarrow> JArr [])) \<and>
            (\<exists>out'. handleMessage st' p m = Inr (st', out')))"
proof -
  define pids where "pids = or_empty (getProp m ''panelIds'')"
  define q1 where "q1 = q\<lparr>role := getProp m ''role'', panelIds := pids\<rparr>"
  define st1 where "st1 = st\<lparr>peers := AList.update p q1 (peers st)\<rparr>"
  note disp = register_dispatch[OF assms(2,3)]
  have iff: "(\<exists>st' out. handleMessage st p m = Inr (st', out)) \<longleftrightarrow>
            printableOpt (getProp m ''role'') \<and>
            (\<not> truthy (getProp m ''panelIds'') \<or>
             (\<exists>xs. getProp m ''panelIds'' = Some (JArr xs) \<and> printable (JArr xs)))"
    unfolding disp handleRegister_returns using or_empty_accepted[of "getProp m ''panelIds''"]
    by blast
  have post: "(\<forall>s \<in> set (st' # run st' es).
               \<exists>q'. map_of (peers s) p = Some q' \<and> role q' = getProp m ''role'' \<and>
                    panelIds q' = (case getProp m ''panelIds'' of
                                     Some a \<Rightarrow> if truthy (Some a) then a else JArr []
                                   | None \<Rightarrow> JArr [])) \<and>
            (\<exists>out'. handleMessage st' p m = Inr (st', out'))"
    if ret: "handleMessage st p m = Inr (st', out)" for st' out
  proof -
    have "\<exists>st' out. handleRegister st p q m = Inr (st', out)" using ret disp by auto
    then have acc: "printableOpt (getProp m ''role'')"
      "isArray (or_empty (getProp m ''panelIds''))" "printable (or_empty (getProp m ''panelIds''))"
      unfolding handleRegister_returns by simp_all
    note ok = handleRegister_ok[OF acc]
    have st': "st' = st1"
      using ret unfolding disp ok by (simp add: st1_def q1_def pids_def)
    have q': "map_of (peers st1) p = Some q1" by (simp add: st1_def update_conv')
    have b: "p < nextPeerId st1" using present_below[OF assms(1,2)] by (simp add: st1_def)
    have later: "\<forall>s \<in> set (run st1 es).
        \<exists>q'. map_of (peers s) p = Some q' \<and> role q' = role q1 \<and> panelIds q' = panelIds q1"
      using run_keeps_registration[OF q' b assms(4)] .
    have now: "\<exists>q'. map_of (peers st1) p = Some q' \<and> role q' = role q1 \<and> panelIds q' = panelIds q1"
      using q' by simp
    have vals: "role q1 = getProp m ''role''"
      "panelIds q1 = (case getProp m ''panelIds'' of
                        Some a \<Rightarrow> if truthy (Some a) then a else JArr []
                      | None \<Rightarrow> JArr [])"
      using or_empty_value[of "getProp m ''panelIds''"] by (simp_all add: q1_def pids_def)
    have all: "\<forall>s \<in> set (st1 # run st1 es).
               \<exists>q'. map_of (peers s) p = Some q' \<and> role q' = getProp m ''role'' \<and>
                    panelIds q' = (case getProp m ''panelIds'' of
                                     Some a \<Rightarrow> if truthy (Some a) then a else JArr []
                                   | None \<Rightarrow> JArr [])"
      using later now unfolding vals by simp
    have same: "q1\<lparr>role := getProp m ''role'', panelIds := or_empty (getProp m ''panelIds'')\<rparr> = q1"
      by (simp add: q1_def pids_def)
    have idem: "\<exists>out'. handleMessage st1 p m = Inr (st1, out')"
      unfolding register_dispatch[OF q' assms(3)] handleRegister_ok[OF acc] same
      by (simp add: st1_def)
    show ?thesis unfolding st' using all idem by (rule conjI)
  qed
  show ?thesis using iff post by blast
qed

theorem reregistration_last_writer_wins_witness:
  "\<exists>st' out. handleMessage demo 1 reregisterAsViewer = Inr (st', out) \<and>
     (\<exists>q'. map_of (peers (last (st' # run st' [Message 2 (Some registerViewer), Connection wsA]))) 1 = Some q' \<and>
           role q' = Some (JStr ''viewer'') \<and> panelIds q' = JArr [JStr ''a''])"
proof -
  let ?es = "[Message 2 (Some registerViewer), Connection wsA]"
  have 1: "map_of (peers demo) 1 = Some \<lparr>ws = wsA, role = Some (JStr ''capture''),
             panelIds = JArr [JStr ''panel-main''], windowList = None\<rparr>"
    by (simp add: demo_state)
  have 3: "getProp reregisterAsViewer ''type'' = Some (JStr ''register'')"
    by (simp add: reregisterAsViewer_def)
  have 6: "\<forall>e \<in> set ?es. e \<noteq> Close 1 \<and>
           (\<forall>x. e = Message 1 (Some x) \<longrightarrow> getProp x ''type'' \<noteq> Some (JStr ''register''))"
    by simp
  note T = reregistration_last_writer_wins[OF demo_reachable 1 3 6]
  have acc: "printableOpt (getProp reregisterAsViewer ''role'') \<and>
            (\<not> truthy (getProp reregisterAsViewer ''panelIds'') \<or>
             (\<exists>xs. getProp reregisterAsViewer ''panelIds'' = Some (JArr xs) \<and> printable (JArr xs)))"
    by (simp add: reregisterAsViewer_def)
  from T[THEN conjunct1] acc
  obtain st' out where h: "handleMessage demo 1 reregisterAsViewer = Inr (st', out)" by blast
  from T[THEN conjunct2, THEN spec, THEN spec, THEN mp, OF h, THEN conjunct1]
  have a: "\<forall>s \<in> set (st' # run st' ?es).
              \<exists>q'. map_of (peers s) 1 = Some q' \<and> role q' = getProp reregisterAsViewer ''role'' \<and>
                   panelIds q' = (case getProp reregisterAsViewer ''panelIds'' of
                                    Some a \<Rightarrow> if truthy (Some a) then a else JArr []
                                  | None \<Rightarrow> JArr [])" .
  have "last (st' # run st' ?es) \<in> set (st' # run st' ?es)" by (rule last_in_set) simp
  with a have "\<exists>q'. map_of (peers (last (st' # run st' ?es))) 1 = Some q' \<and>
       role q' = getProp reregisterAsViewer ''role'' \<and>
       panelIds q' = (case getProp reregisterAsViewer ''panelIds'' of
                        Some a \<Rightarrow> if truthy (Some a) then a else JArr []
                      | None \<Rightarrow> JArr [])"
    by (rule bspec)
  then have "\<exists>q'. map_of (peers (last (st' # run st' ?es))) 1 = Some q' \<and>
       role q' = Some (JStr ''viewer'') \<and> panelIds q' = JArr [JStr ''a'']"
    by (simp add: reregisterAsViewer_def)
  with h show ?thesis by blast
qed

text \<open>
  Claim C8 as stated (the stored \<^verbatim>\<open>panelIds\<close> exactly equals that of the latest
  register message, for every register message) fails: a registration whose
  \<^verbatim>\<open>panelIds\<close> is \<^verbatim>\<open>null\<close> is handled, and the entry then holds the empty array.
\<close>

theorem register_null_panelIds_counterexample:
  "getProp registerNullPanels ''panelIds'' = Some JNull \<and>
   handleMessage demo 1 registerNullPanels =
     Inr (\<lparr>peers = [(1, \<lparr>ws = wsA, role = Some (JStr ''capture''), panelIds = JArr [],
                           windowList = None\<rparr>),
                     (2, \<lparr>ws = wsB, role = Some (JStr ''viewer''), panelIds = JArr [],
                           windowList = None\<rparr>),
                     (3, \<lparr>ws = wsC, role = Some (JStr ''viewer''), panelIds = JArr [],
                           windowList = None\<rparr>),
                     (4, \<lparr>ws = wsD\<lparr>readyState := CLOSING\<rparr>, role = Some (JStr ''capture''),
                           panelIds = JArr [JStr ''panel-main''], windowList = None\<rparr>)],
           nextPeerId = 5\<rparr>,
          [(wsA, peerRegisteredMsg 1 (Some (JStr ''capture'')) (JArr [])),
           (wsB, peerRegisteredMsg 1 (Some (JStr ''capture'')) (JArr [])),
           (wsC, peerRegisteredMsg 1 (Some (JStr ''capture'')) (JArr [])),
           (wsD\<lparr>readyState := CLOSING\<rparr>, peerRegisteredMsg 1 (Some (JStr ''capture'')) (JArr []))])"
  by (simp add: demo_state registerNullPanels_def handleMessage_def handleRegister_def
        or_empty_def broadcast_def Let_def)






lemma filter_update_fresh:
  assumes "k \<notin> fst ` set al"
  shows "filter (\<lambda>(id, p). id \<noteq> k) (AList.update k v al) = al"
  using assms by (induction al) auto

text \<open>
  Claim C5, as the code has it. The welcome message sent to a new connection carries the
  new id and a peer list with one entry for every other peer in the registry, whether it
  has registered or not, each entry with the peer's id, its role (\<^verbatim>\<open>null\<close> for a peer
  that has not registered) and its panel ids.
\<close>

theorem welcome_lists_every_other_peer:
  assumes "st \<in> set (initial # run initial evs)"
  shows "\<exists>st'. onConnection st w = (st', [(w, welcomeMsg st' (nextPeerId st))]) \<and>
           getProp (welcomeMsg st' (nextPeerId st)) ''peerId'' = Some (JNum (nextPeerId st)) \<and>
           getProp (welcomeMsg st' (nextPeerId st)) ''peers'' = Some (JArr (map peerEntry (peers st))) \<and>
           (\<forall>e \<in> set (peers st).
              getProp (peerEntry e) ''peerId'' = Some (JNum (fst e)) \<and>
              getProp (peerEntry e) ''role'' = role (snd e) \<and>
              getProp (peerEntry e) ''panelIds'' = Some (panelIds (snd e)))"
proof -
  have "nextPeerId st \<notin> fst ` set (peers st)"
    using reachable_invariant(1)[OF assms] unfolding idsBelow_iff peerIds_def by auto
  then have l: "welcomePeers (st\<lparr>peers := AList.update (nextPeerId st) v (peers st), nextPeerId := n\<rparr>)
                  (nextPeerId st) = map peerEntry (peers st)" for v n
    by (simp add: welcomePeers_def filter_update_fresh)
  have e: "getProp (peerEntry e) ''peerId'' = Some (JNum (fst e)) \<and>
           getProp (peerEntry e) ''role'' = role (snd e) \<and>
           getProp (peerEntry e) ''panelIds'' = Some (panelIds (snd e))" for e
    by (cases "role (snd e)") (simp_all add: peerEntry_def)
  show ?thesis using l e by (simp add: onConnection_def Let_def welcomeMsg_def)
qed

theorem welcome_lists_every_other_peer_witness:
  "demo \<in> set (initial # run initial demoEvents) \<and>
   (\<exists>st'. onConnection demo wsA = (st', [(wsA, welcomeMsg st' 5)]) \<and>
      getProp (welcomeMsg st' 5) ''peers'' = Some (JArr (map peerEntry (peers demo))))"
proof -
  have n: "nextPeerId demo = 5" by (simp add: demo_state)
  from welcome_lists_every_other_peer[OF demo_reachable, of wsA]
  obtain st' where "onConnection demo wsA = (st', [(wsA, welcomeMsg st' (nextPeerId demo))])"
    "getProp (welcomeMsg st' (nextPeerId demo)) ''peers'' = Some (JArr (map peerEntry (peers demo)))"
    by blast
  then show ?thesis using demo_reachable unfolding n by blast
qed

text \<open>
  Claim C5 as stated (the list never holds a connected peer that has not registered)
  fails: when a second peer connects while the first has not registered, the welcome
  lists the first peer, with role \<^verbatim>\<open>null\<close>.
\<close>

theorem welcome_lists_unregistered_counterexample:
  "snd (onConnection (fst (onConnection initial wsA)) wsB) =
     [(wsB, JObj [(''type'', JStr ''welcome''), (''peerId'', JNum 2),
                  (''peers'', JArr [JObj [(''peerId'', JNum 1), (''role'', JNull),
                                          (''panelIds'', JArr [])]]),
                  (''windowList'', JNull)])]"
  by (simp add: onConnection_def initial_def Let_def welcomeMsg_def welcomePeers_def
        peerEntry_def cachedWindowList_def)

section \<open>The clients: sessions and input channels\<close>

lemma toString_1: "toString 1 = ''1''"
  by (simp add: toString_def digits.simps digitChar_def)

lemma viewer1_state:
  "viewer1 = \<lparr>peerConnections = [(''1:panel-main'', 0)],
              pcs = (\<lambda>h. blankPc)(0 := \<lparr>remotePeerId = 1, panelId = ''panel-main'', closed = False,
                                          remoteDescription = Some (JStr ''sdp-1''),
                                          localDescription = Some (JStr ''answer-1'')\<rparr>),
              wsOpen = True, dataChannels = [], capturePeerIds = [], nextPc = 1\<rparr>"
  by (simp add: viewer1_def viewer0_def newClient_def getOrCreatePC_def sessionKey_def toString_1 Let_def)

lemma viewer2_state:
  "viewer2 = \<lparr>peerConnections = [(''1:panel-main'', 0)],
              pcs = (\<lambda>h. blankPc)(0 := \<lparr>remotePeerId = 1, panelId = ''panel-main'', closed = False,
                                          remoteDescription = Some (JStr ''sdp-2''),
                                          localDescription = Some (JStr ''answer-2'')\<rparr>),
              wsOpen = True, dataChannels = [], capturePeerIds = [], nextPc = 1\<rparr>"
  by (simp add: viewer2_def viewer1_state getOrCreatePC_def sessionKey_def toString_1 Let_def)

lemma startsWith_append: "startsWith (p @ r) p"
  by (simp add: startsWith_def)

lemma startsWith_sessionKey: "startsWith (sessionKey p pid) (toString p @ '':'')"
  by (simp add: startsWith_def sessionKey_def)

lemma closePc_fields [simp]:
  "peerConnections (closePc c h) = peerConnections c"
  "pcs (closePc c h) = (pcs c)(h := (pcs c h)\<lparr>closed := True\<rparr>)"
  "sessions.more (closePc c h) = sessions.more c"
  by (simp_all add: closePc_def)

lemma closeSessions_map:
  "peerConnections (closeSessions pre es c) =
     filter (\<lambda>(k, h). \<not> (startsWith k pre \<and> k \<in> fst ` set es)) (peerConnections c)"
proof (induction es arbitrary: c)
  case Nil
  then show ?case by simp
next
  case (Cons e es)
  obtain key h where e: "e = (key, h)" by (cases e)
  show ?case unfolding e
    by (auto simp: Cons.IH delete_filter intro!: filter_cong)
qed

lemma closeSessions_more: "sessions.more (closeSessions pre es c) = sessions.more c"
  by (induction es arbitrary: c) auto

lemma closeSessions_closed_mono:
  "closed (pcs c h) \<Longrightarrow> closed (pcs (closeSessions pre es c) h)"
  by (induction es arbitrary: c) auto

lemma closeSessions_closes:
  "(k, h) \<in> set es \<Longrightarrow> startsWith k pre \<Longrightarrow> closed (pcs (closeSessions pre es c) h)"
proof (induction es arbitrary: c)
  case Nil
  then show ?case by simp
next
  case (Cons e es)
  obtain key h' where e: "e = (key, h')" by (cases e)
  show ?case
  proof (cases "(k, h) = e")
    case True
    then show ?thesis using Cons.prems(2) e by (auto intro!: closeSessions_closed_mono)
  next
    case False
    then have "(k, h) \<in> set es" using Cons.prems(1) by simp
    from Cons.IH[OF this Cons.prems(2)] show ?thesis unfolding e by simp
  qed
qed

lemma closeSessions_untouched:
  "\<forall>k. (k, h) \<in> set es \<longrightarrow> \<not> startsWith k pre \<Longrightarrow> pcs (closeSessions pre es c) h = pcs c h"
proof (induction es arbitrary: c)
  case Nil
  then show ?case by simp
next
  case (Cons e es)
  obtain key h' where e: "e = (key, h')" by (cases e)
  have 1: "\<forall>k. (k, h) \<in> set es \<longrightarrow> \<not> startsWith k pre" using Cons.prems by simp
  have 2: "startsWith key pre \<Longrightarrow> h' \<noteq> h" using Cons.prems e by auto
  show ?case unfolding e using Cons.IH[OF 1] 2 by auto
qed

text \<open>After the loop no key with the prefix is left, and every connection stored under such a key is closed.\<close>

lemma closeSessions_all:
  "\<forall>k \<in> fst ` set (peerConnections (closeSessions pre (peerConnections c) c)). \<not> startsWith k pre"
  by (force simp: closeSessions_map)

lemma closeSessions_key_gone:
  assumes "startsWith k pre"
  shows "map_of (peerConnections (closeSessions pre (peerConnections c) c)) k = None"
  using closeSessions_all[of pre c] assms by (auto simp: map_of_eq_None_iff)

lemma closeSessions_keeps_others:
  assumes "\<not> startsWith k pre"
  shows "map_of (peerConnections (closeSessions pre es c)) k = map_of (peerConnections c) k"
proof -
  have "map_of (filter (\<lambda>(k', h). \<not> (startsWith k' pre \<and> k' \<in> fst ` set es)) al) k = map_of al k"
    for al :: "(string \<times> nat) list"
    using assms by (induction al) auto
  then show ?thesis by (simp add: closeSessions_map)
qed


lemma update_fresh: "map_of al k = None \<Longrightarrow> AList.update k v al = al @ [(k, v)]"
  by (induction al) (auto split: if_splits)

lemma getOrCreatePC_present:
  assumes "map_of (peerConnections c) (sessionKey rid pid) = Some h"
  shows "getOrCreatePC c rid pid = (h, c)"
  using assms by (simp add: getOrCreatePC_def)

lemma getOrCreatePC_absent:
  assumes "map_of (peerConnections c) (sessionKey rid pid) = None"
  shows "getOrCreatePC c rid pid =
     (nextPc c,
      c\<lparr>pcs := (pcs c)(nextPc c := \<lparr>remotePeerId = rid, panelId = pid, closed = False,
                                      remoteDescription = None, localDescription = None\<rparr>),
        nextPc := Suc (nextPc c),
        peerConnections := peerConnections c @ [(sessionKey rid pid, nextPc c)]\<rparr>)"
  using assms by (simp add: getOrCreatePC_def Let_def update_fresh)

text \<open>
  Claim C1, as the code has it. When an offer arrives at the viewer for a pair
  \<^verbatim>\<open>(fromId, panelId)\<close> whose key already has a session, \<^verbatim>\<open>_getOrCreatePC\<close> returns
  that session: the session map is unchanged, no connection is created and none is
  closed. When the key has no session, a new connection (open, closing over the pair) is
  stored under the key at the end of the map. Either way the key has a session
  afterwards, keys stay distinct, and with an open signaling socket the answer is sent
  back with \<^verbatim>\<open>targetId = fromId\<close> and the \<^verbatim>\<open>panelId\<close>.
\<close>

theorem offer_reuses_existing_session:
  assumes "handleSignal c (Offer fromId pid sdp) answer = (c', out)"
  shows "(\<forall>h. map_of (peerConnections c) (sessionKey fromId pid) = Some h \<longrightarrow>
            peerConnections c' = peerConnections c \<and> nextPc c' = nextPc c \<and>
            (\<forall>h'. closed (pcs c' h') = closed (pcs c h'))) \<and>
         (map_of (peerConnections c) (sessionKey fromId pid) = None \<longrightarrow>
            peerConnections c' = peerConnections c @ [(sessionKey fromId pid, nextPc c)] \<and>
            nextPc c' = Suc (nextPc c) \<and>
            \<not> closed (pcs c' (nextPc c)) \<and>
            remotePeerId (pcs c' (nextPc c)) = fromId \<and> panelId (pcs c' (nextPc c)) = pid \<and>
            (\<forall>h'. h' \<noteq> nextPc c \<longrightarrow> pcs c' h' = pcs c h')) \<and>
         (\<exists>h. map_of (peerConnections c') (sessionKey fromId pid) = Some h) \<and>
         (distinct (map fst (peerConnections c)) \<longrightarrow> distinct (map fst (peerConnections c'))) \<and>
         (\<forall>a. answer = Some a \<and> wsOpen c \<longrightarrow>
            out = [JObj [(''type'', JStr ''answer''), (''targetId'', JNum fromId),
                         (''sdp'', a), (''panelId'', JStr pid)]])"
proof (cases "map_of (peerConnections c) (sessionKey fromId pid)")
  case None
  have k: "sessionKey fromId pid \<notin> fst ` set (peerConnections c)"
    using None by (simp add: map_of_eq_None_iff)
  have m: "map_of (peerConnections c @ [(sessionKey fromId pid, nextPc c)]) (sessionKey fromId pid)
           = Some (nextPc c)"
    by (simp add: map_add_def None)
  have d: "distinct (map fst (peerConnections c)) \<longrightarrow>
           distinct (map fst (peerConnections c @ [(sessionKey fromId pid, nextPc c)]))"
    using k by simp
  have p: "peerConnections c' = peerConnections c @ [(sessionKey fromId pid, nextPc c)]"
    using assms unfolding handleSignal.simps getOrCreatePC_absent[OF None]
    by (cases answer) auto
  have rest: "nextPc c' = Suc (nextPc c) \<and> \<not> closed (pcs c' (nextPc c)) \<and>
            remotePeerId (pcs c' (nextPc c)) = fromId \<and> panelId (pcs c' (nextPc c)) = pid \<and>
            (\<forall>h'. h' \<noteq> nextPc c \<longrightarrow> pcs c' h' = pcs c h') \<and>
            (\<forall>a. answer = Some a \<and> wsOpen c \<longrightarrow>
               out = [JObj [(''type'', JStr ''answer''), (''targetId'', JNum fromId),
                            (''sdp'', a), (''panelId'', JStr pid)]])"
    using assms unfolding handleSignal.simps getOrCreatePC_absent[OF None]
    by (cases answer) (auto simp: clientSend_def)
  show ?thesis using None m d rest unfolding p by simp
next
  case (Some h)
  have p: "peerConnections c' = peerConnections c" "nextPc c' = nextPc c"
    using assms unfolding handleSignal.simps getOrCreatePC_present[OF Some]
    by (cases answer; auto)+
  have cl: "closed (pcs c' h') = closed (pcs c h')" for h'
    using assms unfolding handleSignal.simps getOrCreatePC_present[OF Some]
    by (cases answer; cases "h' = h"; auto)
  have o: "\<forall>a. answer = Some a \<and> wsOpen c \<longrightarrow>
               out = [JObj [(''type'', JStr ''answer''), (''targetId'', JNum fromId),
                            (''sdp'', a), (''panelId'', JStr pid)]]"
    using assms unfolding handleSignal.simps getOrCreatePC_present[OF Some]
    by (cases answer) (auto simp: clientSend_def)
  show ?thesis using Some cl o unfolding p by simp
qed

theorem offer_reuses_existing_session_witness:
  "map_of (peerConnections viewer1) (sessionKey 1 ''panel-main'') = Some 0 \<and>
   peerConnections viewer2 = peerConnections viewer1 \<and> nextPc viewer2 = nextPc viewer1 \<and>
   closed (pcs viewer2 0) = closed (pcs viewer1 0)"
proof -
  have k: "map_of (peerConnections viewer1) (sessionKey 1 ''panel-main'') = Some 0"
    by (simp add: viewer1_state sessionKey_def toString_1)
  have "handleSignal viewer1 (Offer 1 ''panel-main'' (JStr ''sdp-2'')) (Some (JStr ''answer-2''))
        = (viewer2, snd (handleSignal viewer1 (Offer 1 ''panel-main'' (JStr ''sdp-2''))
                                      (Some (JStr ''answer-2''))))"
    by (simp add: viewer2_def)
  from offer_reuses_existing_session[OF this] k show ?thesis by blast
qed

text \<open>
  Claim C1 as stated (the prior session is closed and removed, and a fresh one takes its
  place) fails: after a second offer for the same pair the map still holds the first
  connection, which has not been closed, and no connection has been created.
\<close>

theorem offer_keeps_prior_session_counterexample:
  "map_of (peerConnections viewer1) (sessionKey 1 ''panel-main'') = Some 0 \<and>
   viewer2 = fst (handleSignal viewer1 (Offer 1 ''panel-main'' (JStr ''sdp-2''))
                               (Some (JStr ''answer-2''))) \<and>
   map_of (peerConnections viewer2) (sessionKey 1 ''panel-main'') = Some 0 \<and>
   \<not> closed (pcs viewer2 0) \<and>
   nextPc viewer2 = nextPc viewer1"
proof -
  have "viewer2 = fst (handleSignal viewer1 (Offer 1 ''panel-main'' (JStr ''sdp-2''))
                                   (Some (JStr ''answer-2'')))"
    by (simp only: viewer2_def)
  moreover have "map_of (peerConnections viewer1) (sessionKey 1 ''panel-main'') = Some 0"
    by (simp add: viewer1_state sessionKey_def toString_1)
  moreover have "map_of (peerConnections viewer2) (sessionKey 1 ''panel-main'') = Some 0"
    by (simp add: viewer2_state sessionKey_def toString_1)
  moreover have "\<not> closed (pcs viewer2 0)" by (simp add: viewer2_state)
  moreover have "nextPc viewer2 = nextPc viewer1" by (simp add: viewer1_state viewer2_state)
  ultimately show ?thesis by blast
qed

lemma startsWith_input: "startsWith (''input:'' @ pid) ''input:''"
  by (simp add: startsWith_def)

text \<open>
  Claim C9. The viewer's \<^verbatim>\<open>dataChannels\<close> map is keyed by the panel id alone: a channel
  labelled \<^verbatim>\<open>input:<panelId>\<close> is stored under \<^verbatim>\<open>panelId\<close> whatever session it
  arrives on (any other label is stored under the session's panel id), so a second
  channel for the same panel, from another capture peer, replaces the first, and the map
  never holds two entries for one panel id. \<^verbatim>\<open>releasePanel(target, panelId)\<close> deletes
  the entry of \<^verbatim>\<open>panelId\<close> whatever \<open>target\<close> is.
\<close>

theorem input_channels_keyed_by_panel_alone:
  "dataChannels (ondatachannel c h (''input:'' @ pid) ch) = AList.update pid ch (dataChannels c) \<and>
   (\<not> startsWith label ''input:'' \<longrightarrow>
      dataChannels (ondatachannel c h label ch) =
        AList.update (panelId (pcs c h)) ch (dataChannels c)) \<and>
   map_of (dataChannels (ondatachannel (ondatachannel c h1 (''input:'' @ pid) ch1)
                                       h2 (''input:'' @ pid) ch2)) pid = Some ch2 \<and>
   (distinct (map fst (dataChannels c)) \<longrightarrow>
      distinct (map fst (dataChannels (ondatachannel c h label ch))) \<and>
      distinct (map fst (dataChannels (fst (releasePanel c t pid))))) \<and>
   distinct (map fst (dataChannels newClient)) \<and>
   dataChannels (fst (releasePanel c t pid)) = AList.delete pid (dataChannels c) \<and>
   map_of (dataChannels (fst (releasePanel c t pid))) pid = None"
proof -
  have r: "dataChannels (fst (releasePanel c t pid)) = AList.delete pid (dataChannels c)"
    by (simp add: releasePanel_def Let_def closePc_def split: option.splits)
  have i: "dataChannels (ondatachannel c h (''input:'' @ pid) ch) =
           AList.update pid ch (dataChannels c)" for c :: client and h ch
    by (simp add: ondatachannel_def Let_def startsWith_def)
  have n: "\<not> startsWith label ''input:'' \<longrightarrow>
           dataChannels (ondatachannel c h label ch) =
             AList.update (panelId (pcs c h)) ch (dataChannels c)"
    by (simp add: ondatachannel_def Let_def)
  have two: "map_of (dataChannels (ondatachannel (ondatachannel c h1 (''input:'' @ pid) ch1)
                                       h2 (''input:'' @ pid) ch2)) pid = Some ch2"
    unfolding i by (simp add: update_conv')
  have d1: "distinct (map fst (dataChannels c)) \<longrightarrow>
            distinct (map fst (dataChannels (ondatachannel c h label ch)))"
    by (simp add: ondatachannel_def Let_def distinct_update)
  have d2: "distinct (map fst (dataChannels c)) \<longrightarrow>
            distinct (map fst (dataChannels (fst (releasePanel c t pid))))"
    unfolding r by (simp add: distinct_delete)
  have d0: "distinct (map fst (dataChannels newClient))" by (simp add: newClient_def)
  have g: "map_of (dataChannels (fst (releasePanel c t pid))) pid = None"
    unfolding r by (simp add: delete_conv')
  show ?thesis using r i n two d1 d2 d0 g by blast
qed

theorem input_channels_keyed_by_panel_alone_witness:
  "peerConnections viewer4 = [(''1:panel-main'', 0), (''4:panel-main'', 1)] \<and>
   dataChannels viewer4 = [(''panel-main'', 101)] \<and>
   dataChannels (fst (releasePanel viewer4 1 ''panel-main'')) = [] \<and>
   map_of (peerConnections (fst (releasePanel viewer4 1 ''panel-main''))) ''4:panel-main'' = Some 1"
proof -
  have t4: "toString 4 = ''4''" by (simp add: toString_def digits.simps digitChar_def)
  have v3: "peerConnections viewer3 = [(''1:panel-main'', 0), (''4:panel-main'', 1)]"
           "dataChannels viewer3 = []"
    by (simp_all add: viewer3_def viewer1_state getOrCreatePC_def sessionKey_def t4 Let_def)
  have p: "peerConnections viewer4 = [(''1:panel-main'', 0), (''4:panel-main'', 1)]"
    by (simp add: viewer4_def ondatachannel_def Let_def v3)
  have d: "dataChannels viewer4 = [(''panel-main'', 101)]"
    unfolding viewer4_def
    using input_channels_keyed_by_panel_alone[of "ondatachannel viewer3 0 ''input:panel-main'' 100" 1 "''panel-main''" 101]
          input_channels_keyed_by_panel_alone[of viewer3 0 "''panel-main''" 100]
    by (simp add: v3)
  have r: "dataChannels (fst (releasePanel viewer4 1 ''panel-main'')) = []"
    using input_channels_keyed_by_panel_alone[of viewer4 0 "''panel-main''" 0 "''x''" 1] d
    by simp
  have q: "map_of (peerConnections (fst (releasePanel viewer4 1 ''panel-main''))) ''4:panel-main'' = Some 1"
    by (simp add: releasePanel_def Let_def p sessionKey_def toString_1 closePc_def)
  show ?thesis using p d r q by simp
qed


lemma sessions_closed_for_peer:
  fixes c :: "'a sessions_scheme"
  shows "map_of (peerConnections (closeSessions (toString p @ '':'') (peerConnections c) c))
               (sessionKey p pid) = None"
    and "map_of (peerConnections c) (sessionKey p pid) = Some h \<Longrightarrow>
         closed (pcs (closeSessions (toString p @ '':'') (peerConnections c) c) h)"
proof -
  show "map_of (peerConnections (closeSessions (toString p @ '':'') (peerConnections c) c))
               (sessionKey p pid) = None"
    by (rule closeSessions_key_gone[OF startsWith_sessionKey])
  assume "map_of (peerConnections c) (sessionKey p pid) = Some h"
  then have "(sessionKey p pid, h) \<in> set (peerConnections c)" by (rule map_of_SomeD)
  then show "closed (pcs (closeSessions (toString p @ '':'') (peerConnections c) c) h)"
    using startsWith_sessionKey by (rule closeSessions_closes)
qed

text \<open>
  Claim C3. When a peer in the registry disconnects, in any state the broker can reach:
  the close handler does not throw and removes the peer's entry; through every later
  sequence of events the peer's id is never in the registry again, so it is never among
  the capture-role peers; \<^verbatim>\<open>broadcast\<close> sends a \<^verbatim>\<open>peer-disconnected\<close> message
  carrying the peer's id to every remaining peer (\<^verbatim>\<open>send\<close> writes it to the sockets
  that are open); and a client that handles that message, the viewer or a capture
  client, is left with no session keyed by the peer's id, every connection that was
  stored under such a key having been closed.
\<close>

theorem disconnect_removes_peer_and_sessions:
  fixes cc :: "'a sessions_scheme"
  assumes "st \<in> set (initial # run initial evs)" and "p \<in> peerIds st"
  shows "\<exists>st' out.
           onClose st p = Inr (st', out) \<and>
           map_of (peers st') p = None \<and>
           (\<forall>s \<in> set (st' # run st' es). p \<notin> peerIds s \<and> p \<notin> fst ` set (capturePeers s)) \<and>
           out = map (\<lambda>(id, q). (ws q, peerDisconnectedMsg p))
                     (filter (\<lambda>(id, q). id \<noteq> p) (peers st)) \<and>
           getProp (peerDisconnectedMsg p) ''type'' = Some (JStr ''peer-disconnected'') \<and>
           getProp (peerDisconnectedMsg p) ''peerId'' = Some (JNum p) \<and>
           wire out = map (\<lambda>(id, q). (sock (ws q), peerDisconnectedMsg p))
                          (filter (\<lambda>(id, q). readyState (ws q) = OPEN)
                             (filter (\<lambda>(id, q). id \<noteq> p) (peers st))) \<and>
           (\<forall>pid. map_of (peerConnections (fst (handleSignal c (PeerDisconnected p) a)))
                          (sessionKey p pid) = None) \<and>
           (\<forall>pid h. map_of (peerConnections c) (sessionKey p pid) = Some h \<longrightarrow>
                     closed (pcs (fst (handleSignal c (PeerDisconnected p) a)) h)) \<and>
           (\<forall>pid. map_of (peerConnections (capturePeerDisconnected cc p)) (sessionKey p pid) = None) \<and>
           (\<forall>pid h. map_of (peerConnections cc) (sessionKey p pid) = Some h \<longrightarrow>
                     closed (pcs (capturePeerDisconnected cc p) h))"
proof -
  define st' where "st' = st\<lparr>peers := AList.delete p (peers st)\<rparr>"
  define out where "out = map (\<lambda>(id, q). (ws q, peerDisconnectedMsg p))
                              (filter (\<lambda>(id, q). id \<noteq> p) (peers st))"
  have 0: "onClose st p = Inr (st', out)"
    unfolding st'_def out_def by (rule onClose_ok[OF reachable_invariant(2)[OF assms(1)]])
  have gone: "p \<notin> peerIds st'" by (rule onClose_keys(2)[OF 0])
  have below: "p < nextPeerId st'"
    using assms reachable_invariant(1)[OF assms(1)]
    by (simp add: onClose_keys(3)[OF 0] idsBelow_iff)
  have 1: "map_of (peers st') p = None"
    using gone by (simp add: peerIds_def map_of_eq_None_iff)
  have "\<forall>s \<in> set (run st' es). p \<notin> peerIds s" using run_absent[OF gone below] .
  then have "\<forall>s \<in> set (st' # run st' es). p \<notin> peerIds s" using gone by simp
  then have 2: "\<forall>s \<in> set (st' # run st' es). p \<notin> peerIds s \<and> p \<notin> fst ` set (capturePeers s)"
    using capturePeers_keys by blast
  have 4: "getProp (peerDisconnectedMsg p) ''type'' = Some (JStr ''peer-disconnected'')"
          "getProp (peerDisconnectedMsg p) ''peerId'' = Some (JNum p)"
    by (simp_all add: peerDisconnectedMsg_def)
  have 5: "wire out =
           map (\<lambda>(id, q). (sock (ws q), peerDisconnectedMsg p))
               (filter (\<lambda>(id, q). readyState (ws q) = OPEN)
                  (filter (\<lambda>(id, q). id \<noteq> p) (peers st)))"
    unfolding out_def by (rule wire_map)
  have 6: "\<forall>pid. map_of (peerConnections (fst (handleSignal c (PeerDisconnected p) a)))
                        (sessionKey p pid) = None"
    using sessions_closed_for_peer(1)[of p c] by simp
  have 7: "\<forall>pid h. map_of (peerConnections c) (sessionKey p pid) = Some h \<longrightarrow>
                   closed (pcs (fst (handleSignal c (PeerDisconnected p) a)) h)"
    using sessions_closed_for_peer(2)[of c p] by simp
  have 8: "\<forall>pid. map_of (peerConnections (capturePeerDisconnected cc p)) (sessionKey p pid) = None"
    unfolding capturePeerDisconnected_def using sessions_closed_for_peer(1) by blast
  have 9: "\<forall>pid h. map_of (peerConnections cc) (sessionKey p pid) = Some h \<longrightarrow>
                   closed (pcs (capturePeerDisconnected cc p) h)"
    unfolding capturePeerDisconnected_def using sessions_closed_for_peer(2) by blast
  show ?thesis
    apply (rule exI[of _ st'], rule exI[of _ out])
    using 0 1 2 4 5 6 7 8 9 out_def by (intro conjI) assumption+
qed

theorem disconnect_removes_peer_and_sessions_witness:
  "demo \<in> set (initial # run initial demoEvents) \<and> 1 \<in> peerIds demo \<and>
   (\<exists>st' out. onClose demo 1 = Inr (st', out) \<and>
      map_of (peers st') 1 = None \<and>
      1 \<notin> fst ` set (capturePeers (last (st' #
              run st' [Connection wsA, Message 5 (Some registerCapture)]))) \<and>
      map fst out = [wsB, wsC, wsD\<lparr>readyState := CLOSING\<rparr>]) \<and>
   map_of (peerConnections viewer3) (sessionKey 1 ''panel-main'') = Some 0 \<and>
   map_of (peerConnections (fst (handleSignal viewer3 (PeerDisconnected 1) None)))
          (sessionKey 1 ''panel-main'') = None \<and>
   closed (pcs (fst (handleSignal viewer3 (PeerDisconnected 1) None)) 0)"
proof -
  let ?es = "[Connection wsA, Message 5 (Some registerCapture)]"
  have m: "1 \<in> peerIds demo" by (simp add: peerIds_def demo_state)
  have t4: "toString 4 = ''4''" by (simp add: toString_def digits.simps digitChar_def)
  have k: "map_of (peerConnections viewer3) (sessionKey 1 ''panel-main'') = Some 0"
    by (simp add: viewer3_def viewer1_state getOrCreatePC_def sessionKey_def toString_1 t4 Let_def)
  from disconnect_removes_peer_and_sessions[OF demo_reachable m, of ?es viewer3 None viewer3]
  obtain st' out where c: "onClose demo 1 = Inr (st', out)"
    and g: "map_of (peers st') 1 = None"
    and r: "\<forall>s \<in> set (st' # run st' ?es). 1 \<notin> peerIds s \<and> 1 \<notin> fst ` set (capturePeers s)"
    and o: "out = map (\<lambda>(id, q). (ws q, peerDisconnectedMsg 1))
                      (filter (\<lambda>(id, q). id \<noteq> 1) (peers demo))"
    and d: "\<forall>pid. map_of (peerConnections (fst (handleSignal viewer3 (PeerDisconnected 1) None)))
                          (sessionKey 1 pid) = None"
    and e: "\<forall>pid h. map_of (peerConnections viewer3) (sessionKey 1 pid) = Some h \<longrightarrow>
                     closed (pcs (fst (handleSignal viewer3 (PeerDisconnected 1) None)) h)"
    by blast
  have l: "last (st' # run st' ?es) \<in> set (st' # run st' ?es)" by (rule last_in_set) simp
  have a: "1 \<notin> fst ` set (capturePeers (last (st' # run st' ?es)))"
    using bspec[OF r l] by simp
  have f: "map fst out = [wsB, wsC, wsD\<lparr>readyState := CLOSING\<rparr>]"
    unfolding o by (simp add: demo_state)
  have x: "\<exists>st' out. onClose demo 1 = Inr (st', out) \<and>
      map_of (peers st') 1 = None \<and>
      1 \<notin> fst ` set (capturePeers (last (st' # run st' ?es))) \<and>
      map fst out = [wsB, wsC, wsD\<lparr>readyState := CLOSING\<rparr>]"
    by (rule exI[of _ st'], rule exI[of _ out]) (simp only: c g a f simp_thms)
  have d1: "map_of (peerConnections (fst (handleSignal viewer3 (PeerDisconnected 1) None)))
          (sessionKey 1 ''panel-main'') = None"
    using d by (rule spec)
  have e1: "closed (pcs (fst (handleSignal viewer3 (PeerDisconnected 1) None)) 0)"
    using e k by blast
  show ?thesis
    by (intro conjI) (rule demo_reachable m x k d1 e1)+
qed

end
